theory Spec2Isabelle
  imports Main "HOL-Library.AList"
begin

section \<open>Data model (prisma/schema.prisma)\<close>

text \<open>
  Object ids are strings, \<open>DateTime\<close> values are integers (milliseconds since the epoch),
  an optional column (\<open>String?\<close>, \<open>DateTime?\<close>) is an \<open>option\<close> with \<open>None\<close> for
  \<open>null\<close>. A field name that several models share keeps its plain name in \<open>message\<close> and
  carries the model's name as a suffix elsewhere. Left out are \<open>updatedAt\<close> of \<open>Message\<close>,
  \<open>createdAt\<close> of \<open>Reaction\<close>, \<open>GroupInvite\<close> and \<open>OtpData\<close>, \<open>id\<close> of \<open>OtpData\<close>, and the
  columns of \<open>User\<close> that no modelled handler selects.
\<close>

record message =
  id_message :: string
  senderId :: string
  receiverId :: "string option"
  groupId :: "string option"
  content :: string
  encryptedKey :: string
  mediaUrl :: "string option"
  mediaType :: "string option"
  isRead :: bool
  isDelivered :: bool
  isAnonymous :: bool
  expiresAt :: "int option"
  deleted :: bool
  createdAt :: int

record user_row =
  id_user :: string
  phoneNumber :: string
  username :: "string option"
  profilePic :: "string option"
  isOnline :: bool
  lastSeen :: int

record reaction =
  id_reaction :: string
  messageId :: string
  userId :: string
  emoji :: string

record group_row =
  id_group :: string
  name_group :: string
  description :: "string option"
  profilePic_group :: "string option"
  isPrivate :: bool
  adminId :: string
  memberIds :: "string list"
  messageExpiry :: "int option"
  allowAnonymous :: bool
  createdAt_group :: int
  updatedAt_group :: int

record group_invite =
  id_invite :: string
  groupId_invite :: string
  inviteCode :: string
  expiresAt_invite :: int

record member_nickname =
  id_nickname :: string
  userId_nickname :: string
  groupId_nickname :: string
  nickname :: string
  isVisible :: bool

record otp_data =
  userId_otp :: string
  otp :: string
  expiresAt_otp :: int

text \<open>The database: one list of rows per Prisma model, in storage order.\<close>

record db =
  db_users :: "user_row list"
  db_messages :: "message list"
  db_reactions :: "reaction list"
  db_groups :: "group_row list"
  db_invites :: "group_invite list"
  db_nicknames :: "member_nickname list"
  db_otps :: "otp_data list"

text \<open>A handler that answers \<open>res.status(n).json({success: false, message: s})\<close>.\<close>

datatype http_error = HttpError nat string

section \<open>JavaScript values and object literals\<close>

text \<open>
  Truthiness of the values the handlers test with \<open>!x\<close>, \<open>x || y\<close> and \<open>x ? a : b\<close>:
  \<open>undefined\<close>, \<open>null\<close>, the empty string and the number 0 are falsy.
\<close>

definition truthy_str :: "string option \<Rightarrow> bool" where
  "truthy_str v = (case v of None \<Rightarrow> False | Some s \<Rightarrow> s \<noteq> [])"

definition truthy_num :: "int option \<Rightarrow> bool" where
  "truthy_num v = (case v of None \<Rightarrow> False | Some n \<Rightarrow> n \<noteq> 0)"

text \<open>\<open>x || null\<close> on an optional string.\<close>

definition or_null :: "string option \<Rightarrow> string option" where
  "or_null v = (if truthy_str v then v else None)"

text \<open>
  An object literal \<open>{k1: v1, k2: v2, ...}\<close> is evaluated left to right; a key that is
  written twice keeps its first position and takes the value written last.
\<close>

definition object_literal :: "('k \<times> 'v) list \<Rightarrow> ('k \<times> 'v) list" where
  "object_literal ps = foldl (\<lambda>obj (k, v). AList.update k v obj) [] ps"

section \<open>Prisma \<open>where\<close> filters over messages\<close>

datatype where_key =
  K_OR | K_senderId | K_receiverId | K_groupId | K_deleted | K_isDelivered
  | K_expiresAt | K_mediaUrl

text \<open>
  A condition on one column: \<open>col: v\<close>, \<open>col: null\<close>, \<open>col: {gt: d}\<close>, \<open>col: {lt: d}\<close>,
  \<open>col: {contains: s}\<close> and \<open>col: {not: null}\<close>.
\<close>

datatype field_cond =
  Eq_str string | Eq_bool bool | Is_null | Gt int | Lt int | Contains string | Not_null

datatype where_value = Cond field_cond | OR_of "(where_key \<times> field_cond) list list"

type_synonym where_obj = "(where_key \<times> where_value) list"

datatype column_value = Str string | Bool bool | Date int | Null

fun opt_str :: "string option \<Rightarrow> column_value" where
  "opt_str None = Null"
| "opt_str (Some s) = Str s"

fun opt_date :: "int option \<Rightarrow> column_value" where
  "opt_date None = Null"
| "opt_date (Some t) = Date t"

fun column :: "message \<Rightarrow> where_key \<Rightarrow> column_value option" where
  "column m K_senderId = Some (Str (senderId m))"
| "column m K_receiverId = Some (opt_str (receiverId m))"
| "column m K_groupId = Some (opt_str (groupId m))"
| "column m K_deleted = Some (Bool (deleted m))"
| "column m K_isDelivered = Some (Bool (isDelivered m))"
| "column m K_expiresAt = Some (opt_date (expiresAt m))"
| "column m K_mediaUrl = Some (opt_str (mediaUrl m))"
| "column m K_OR = None"

text \<open>Substring test of \<open>contains\<close>: \<open>s\<close> occurs in \<open>u\<close> at some offset.\<close>

fun contains_str :: "string \<Rightarrow> string \<Rightarrow> bool" where
  "contains_str [] s = (s = [])"
| "contains_str (c # cs) s = (take (length s) (c # cs) = s \<or> contains_str cs s)"

fun cond_holds :: "field_cond \<Rightarrow> column_value \<Rightarrow> bool" where
  "cond_holds (Eq_str s) v = (v = Str s)"
| "cond_holds (Eq_bool b) v = (v = Bool b)"
| "cond_holds Is_null v = (v = Null)"
| "cond_holds (Gt d) v = (case v of Date t \<Rightarrow> d < t | _ \<Rightarrow> False)"
| "cond_holds (Lt d) v = (case v of Date t \<Rightarrow> t < d | _ \<Rightarrow> False)"
| "cond_holds (Contains s) v = (case v of Str u \<Rightarrow> contains_str u s | _ \<Rightarrow> False)"
| "cond_holds Not_null v = (v \<noteq> Null)"

definition field_holds :: "message \<Rightarrow> where_key \<Rightarrow> field_cond \<Rightarrow> bool" where
  "field_holds m k c = (case column m k of None \<Rightarrow> False | Some v \<Rightarrow> cond_holds c v)"

text \<open>An object of column conditions holds when each of its properties does.\<close>

definition matches_flat :: "message \<Rightarrow> (where_key \<times> field_cond) list \<Rightarrow> bool" where
  "matches_flat m obj = list_all (\<lambda>(k, c). field_holds m k c) obj"

fun property_holds :: "message \<Rightarrow> where_key \<Rightarrow> where_value \<Rightarrow> bool" where
  "property_holds m K_OR (OR_of alts) = list_ex (matches_flat m) alts"
| "property_holds m K_OR (Cond c) = False"
| "property_holds m k (Cond c) = field_holds m k c"
| "property_holds m k (OR_of alts) = False"

definition matches_where :: "message \<Rightarrow> where_obj \<Rightarrow> bool" where
  "matches_where m w = list_all (\<lambda>(k, v). property_holds m k v) w"

definition findMany_message :: "where_obj \<Rightarrow> message list \<Rightarrow> message list" where
  "findMany_message w ms = filter (\<lambda>m. matches_where m w) ms"

definition findFirst_message :: "where_obj \<Rightarrow> message list \<Rightarrow> message option" where
  "findFirst_message w ms = find (\<lambda>m. matches_where m w) ms"

definition updateMany_message ::
  "where_obj \<Rightarrow> (message \<Rightarrow> message) \<Rightarrow> message list \<Rightarrow> message list" where
  "updateMany_message w upd ms = map (\<lambda>m. if matches_where m w then upd m else m) ms"

text \<open>\<open>findUnique\<close> and \<open>update\<close> with \<open>where: {id}\<close>; ids are unique in the collection.\<close>

definition findUnique_message :: "string \<Rightarrow> message list \<Rightarrow> message option" where
  "findUnique_message i ms = find (\<lambda>m. id_message m = i) ms"

definition update_message ::
  "string \<Rightarrow> (message \<Rightarrow> message) \<Rightarrow> message list \<Rightarrow> message list" where
  "update_message i upd ms = map (\<lambda>m. if id_message m = i then upd m else m) ms"

definition findUnique_group :: "string \<Rightarrow> group_row list \<Rightarrow> group_row option" where
  "findUnique_group i gs = find (\<lambda>g. id_group g = i) gs"

definition findUnique_user :: "string \<Rightarrow> user_row list \<Rightarrow> user_row option" where
  "findUnique_user i us = find (\<lambda>u. id_user u = i) us"

section \<open>message.controller.js: getMessagesByUser\<close>

text \<open>A message as \<open>include: {reactions: true}\<close> returns it: every column, and its reactions.\<close>

record message_with_reactions = message +
  reactions :: "reaction list"

definition include_reactions :: "reaction list \<Rightarrow> message \<Rightarrow> message_with_reactions" where
  "include_reactions rs m =
     message.extend m
       (message_with_reactions.fields (filter (\<lambda>r. messageId r = id_message m) rs))"

text \<open>
  The filter object of the \<open>findMany\<close> call, property by property as the source writes
  it. The key \<open>OR\<close> is written twice.
\<close>

definition getMessagesByUser_where :: "string \<Rightarrow> string \<Rightarrow> int \<Rightarrow> where_obj" where
  "getMessagesByUser_where currentUserId otherUserId now =
     object_literal
       [(K_OR, OR_of
           [object_literal
              [(K_senderId, Eq_str currentUserId), (K_receiverId, Eq_str otherUserId)],
            object_literal
              [(K_senderId, Eq_str otherUserId), (K_receiverId, Eq_str currentUserId)]]),
        (K_deleted, Cond (Eq_bool False)),
        (K_OR, OR_of
           [object_literal [(K_expiresAt, Is_null)],
            object_literal [(K_expiresAt, Gt now)]])]"

definition mark_delivered_where :: "string \<Rightarrow> string \<Rightarrow> where_obj" where
  "mark_delivered_where currentUserId otherUserId =
     object_literal
       [(K_senderId, Cond (Eq_str otherUserId)),
        (K_receiverId, Cond (Eq_str currentUserId)),
        (K_isDelivered, Cond (Eq_bool False))]"

text \<open>
  The handler returns the fetched list (status 200) and leaves the database with the
  \<open>updateMany\<close> applied. \<open>orderBy: {createdAt: 'asc'}\<close> is modelled as a stable sort of
  the matches; \<open>new Date()\<close> is the parameter \<open>now\<close>.
\<close>

definition getMessagesByUser ::
  "db \<Rightarrow> string \<Rightarrow> string \<Rightarrow> int \<Rightarrow> message_with_reactions list \<times> db" where
  "getMessagesByUser d currentUserId otherUserId now =
     (let messages =
            map (include_reactions (db_reactions d))
              (sort_key createdAt
                 (findMany_message (getMessagesByUser_where currentUserId otherUserId now)
                    (db_messages d)));
          d' = d\<lparr>db_messages :=
                   updateMany_message (mark_delivered_where currentUserId otherUserId)
                     (\<lambda>m. m\<lparr>isDelivered := True\<rparr>) (db_messages d)\<rparr>
      in (messages, d'))"

section \<open>message.controller.js: sendMessage\<close>

text \<open>
  The fields of \<open>req.body\<close>. \<open>content\<close> and \<open>encryptedKey\<close> are \<open>None\<close> when the body lacks
  them; \<open>isAnonymous\<close> absent is \<open>False\<close>; \<open>expiresAt\<close> is a number of milliseconds. Ids in
  the body are taken as well-formed object ids.
\<close>

record send_body =
  receiverId_body :: "string option"
  groupId_body :: "string option"
  content_body :: "string option"
  encryptedKey_body :: "string option"
  mediaUrl_body :: "string option"
  mediaType_body :: "string option"
  isAnonymous_body :: bool
  expiresAt_body :: "int option"

text \<open>
  The block that runs when \<open>groupId\<close> is truthy. Its last statement assigns to
  \<open>expiresAt\<close>, which the destructuring declared \<open>const\<close>: the assignment throws a
  TypeError, and the handler's \<open>catch\<close> answers 500.
\<close>

definition sendMessage_group_checks ::
  "db \<Rightarrow> string \<Rightarrow> send_body \<Rightarrow> http_error option" where
  "sendMessage_group_checks d sender body =
     (case findUnique_group (the (groupId_body body)) (db_groups d) of
        None \<Rightarrow> Some (HttpError 404 ''Group not found'')
      | Some grp \<Rightarrow>
          if sender \<notin> set (memberIds grp)
          then Some (HttpError 403 ''You are not a member of this group'')
          else if isAnonymous_body body \<and> \<not> allowAnonymous grp
          then Some (HttpError 403 ''Anonymous messaging is not allowed in this group'')
          else if \<not> truthy_num (expiresAt_body body) \<and> truthy_num (messageExpiry grp)
          then Some (HttpError 500 ''Server error sending message'')
          else None)"

text \<open>
  \<open>new Date(t)\<close> is a valid date for \<open>t\<close> within 8.64e15 milliseconds of the epoch, and an
  Invalid Date beyond.
\<close>

definition valid_date :: "int \<Rightarrow> bool" where
  "valid_date t = (- 8640000000000000 \<le> t \<and> t \<le> 8640000000000000)"

text \<open>
  \<open>prisma.message.create\<close>: the database supplies the id (\<open>new_id\<close>), the creation time
  (\<open>now\<close>) and the defaults of \<open>isRead\<close>, \<open>isDelivered\<close> and \<open>deleted\<close>. The call throws
  (\<open>None\<close>) when a required column has no value or \<open>expiresAt\<close> is an Invalid Date.
\<close>

definition create_message ::
  "string \<Rightarrow> int \<Rightarrow> string \<Rightarrow> send_body \<Rightarrow> message option" where
  "create_message new_id now sender body =
     (case (content_body body, encryptedKey_body body) of
        (Some c, Some k) \<Rightarrow>
          if truthy_num (expiresAt_body body) \<and> \<not> valid_date (the (expiresAt_body body))
          then None
          else Some
            \<lparr>id_message = new_id,
             senderId = sender,
             receiverId = or_null (receiverId_body body),
             groupId = or_null (groupId_body body),
             content = c,
             encryptedKey = k,
             mediaUrl = or_null (mediaUrl_body body),
             mediaType = or_null (mediaType_body body),
             isRead = False,
             isDelivered = False,
             isAnonymous = isAnonymous_body body,
             expiresAt =
               (if truthy_num (expiresAt_body body) then expiresAt_body body else None),
             deleted = False,
             createdAt = now\<rparr>
      | _ \<Rightarrow> None)"

definition sendMessage ::
  "db \<Rightarrow> string \<Rightarrow> send_body \<Rightarrow> string \<Rightarrow> int \<Rightarrow> http_error + (message \<times> db)" where
  "sendMessage d sender body new_id now =
     (if \<not> truthy_str (receiverId_body body) \<and> \<not> truthy_str (groupId_body body)
      then Inl (HttpError 400 ''Please provide either a receiver ID or group ID'')
      else
        case (if truthy_str (groupId_body body)
              then sendMessage_group_checks d sender body else None) of
          Some e \<Rightarrow> Inl e
        | None \<Rightarrow>
            (case create_message new_id now sender body of
               None \<Rightarrow> Inl (HttpError 500 ''Server error sending message'')
             | Some message \<Rightarrow>
                 Inr (message, d\<lparr>db_messages := db_messages d @ [message]\<rparr>)))"

section \<open>schema.prisma: relations, and the validation of \<open>include\<close>\<close>

datatype model =
  User_model | OtpData_model | Message_model | Reaction_model | Group_model
  | GroupInvite_model | MemberNickname_model

text \<open>The relation fields of each model and the model each leads to, as the schema declares them.\<close>

fun relation_fields :: "model \<Rightarrow> (string \<times> model) list" where
  "relation_fields User_model =
     [(''otpData'', OtpData_model), (''sentMessages'', Message_model),
      (''recvMessages'', Message_model), (''groups'', Group_model),
      (''adminGroups'', Group_model)]"
| "relation_fields OtpData_model = [(''user'', User_model)]"
| "relation_fields Message_model =
     [(''sender'', User_model), (''receiver'', User_model), (''group'', Group_model),
      (''reactions'', Reaction_model)]"
| "relation_fields Reaction_model = [(''message'', Message_model)]"
| "relation_fields Group_model =
     [(''admin'', User_model), (''members'', User_model), (''messages'', Message_model),
      (''groupInvites'', GroupInvite_model), (''memberNicknames'', MemberNickname_model)]"
| "relation_fields GroupInvite_model = [(''group'', Group_model)]"
| "relation_fields MemberNickname_model = [(''group'', Group_model)]"

text \<open>
  An \<open>include\<close> argument: the relations it names, each with the relations its own nested
  \<open>include\<close> names. Prisma Client checks the argument against the schema before it sends
  the query, and throws when a name is not a relation field of the model it is asked of.
  The scalar columns that the handlers' \<open>select\<close>s name all exist and are not listed.
\<close>

type_synonym include_arg = "(string \<times> string list) list"

definition valid_include :: "model \<Rightarrow> include_arg \<Rightarrow> bool" where
  "valid_include m inc =
     list_all
       (\<lambda>(r, nested).
          case map_of (relation_fields m) r of
            None \<Rightarrow> False
          | Some target \<Rightarrow> list_all (\<lambda>n. map_of (relation_fields target) n \<noteq> None) nested)
       inc"

section \<open>message.controller.js: getGroupMessages\<close>

text \<open>
  The \<open>sender\<close> object of a returned message. The query selects \<open>id\<close>, \<open>username\<close>,
  \<open>phoneNumber\<close> and \<open>profilePic\<close>; the mapping may add \<open>isNickname\<close> and \<open>isVisible\<close>.
  \<open>None\<close> stands for \<open>null\<close> and for a key the object does not have.
\<close>

record sender_view =
  id_sender :: "string option"
  username_sender :: "string option"
  phoneNumber_sender :: "string option"
  profilePic_sender :: "string option"
  isNickname :: "bool option"
  isVisible_sender :: "bool option"

record message_with_sender = message +
  sender :: sender_view
  reactions_sender :: "reaction list"

definition select_sender :: "user_row \<Rightarrow> sender_view" where
  "select_sender u =
     \<lparr>id_sender = Some (id_user u),
      username_sender = username u,
      phoneNumber_sender = Some (phoneNumber u),
      profilePic_sender = profilePic u,
      isNickname = None,
      isVisible_sender = None\<rparr>"

text \<open>
  The \<open>include\<close> of the handler's \<open>findMany\<close>: \<open>sender\<close>, and \<open>reactions\<close> with a nested
  include of \<open>user\<close>.
\<close>

definition getGroupMessages_include :: include_arg where
  "getGroupMessages_include = [(''sender'', []), (''reactions'', [''user''])]"

text \<open>
  A message with its sender's selected columns and its reactions. \<open>sender\<close> is a required
  relation: a message whose sender row is missing has no result (\<open>None\<close>).
\<close>

definition include_sender :: "db \<Rightarrow> message \<Rightarrow> message_with_sender option" where
  "include_sender d m =
     map_option
       (\<lambda>u. message.extend m
          (message_with_sender.fields (select_sender u)
             (filter (\<lambda>r. messageId r = id_message m) (db_reactions d))))
       (findUnique_user (senderId m) (db_users d))"

definition getGroupMessages_where :: "string \<Rightarrow> int \<Rightarrow> where_obj" where
  "getGroupMessages_where gid now =
     object_literal
       [(K_groupId, Cond (Eq_str gid)),
        (K_deleted, Cond (Eq_bool False)),
        (K_OR, OR_of
           [object_literal [(K_expiresAt, Is_null)],
            object_literal [(K_expiresAt, Gt now)]])]"

text \<open>
  The handler's \<open>prisma.message.findMany\<close>: \<open>None\<close> when the call throws, which it does when
  the \<open>include\<close> is not valid for \<open>Message\<close>.
\<close>

definition getGroupMessages_findMany ::
  "db \<Rightarrow> string \<Rightarrow> int \<Rightarrow> message_with_sender list option" where
  "getGroupMessages_findMany d gid now =
     (if \<not> valid_include Message_model getGroupMessages_include then None
      else those (map (include_sender d)
             (sort_key createdAt
                (findMany_message (getGroupMessages_where gid now) (db_messages d)))))"

definition anonymous_sender :: sender_view where
  "anonymous_sender =
     \<lparr>id_sender = None,
      username_sender = Some ''Anonymous'',
      phoneNumber_sender = None,
      profilePic_sender = None,
      isNickname = None,
      isVisible_sender = None\<rparr>"

text \<open>
  The callback of \<open>messages.map\<close>. \<open>{...message, sender: s}\<close> copies every property of the
  message and replaces \<open>sender\<close>: a record update.
\<close>

definition messagesWithNicknames ::
  "member_nickname list \<Rightarrow> string \<Rightarrow> message_with_sender \<Rightarrow> message_with_sender" where
  "messagesWithNicknames memberNicknames gid message =
     (if isAnonymous message then message\<lparr>sender := anonymous_sender\<rparr>
      else
        case find (\<lambda>n. userId_nickname n = senderId message \<and> groupId_nickname n = gid)
               memberNicknames of
          Some n \<Rightarrow>
            message\<lparr>sender := (sender message)
              \<lparr>username_sender := Some (nickname n),
               isNickname := Some True,
               isVisible_sender := Some (isVisible n)\<rparr>\<rparr>
        | None \<Rightarrow> message)"

text \<open>\<open>group.memberNicknames\<close>: the nickname rows of the group.\<close>

definition memberNicknames :: "db \<Rightarrow> group_row \<Rightarrow> member_nickname list" where
  "memberNicknames d grp =
     filter (\<lambda>n. groupId_nickname n = id_group grp) (db_nicknames d)"

text \<open>A throw of \<open>findMany\<close> is caught by the handler's \<open>catch\<close>, which answers 500.\<close>

definition getGroupMessages ::
  "db \<Rightarrow> string \<Rightarrow> string \<Rightarrow> int \<Rightarrow> http_error + message_with_sender list" where
  "getGroupMessages d currentUserId gid now =
     (case findUnique_group gid (db_groups d) of
        None \<Rightarrow> Inl (HttpError 404 ''Group not found'')
      | Some grp \<Rightarrow>
          if currentUserId \<notin> set (memberIds grp)
          then Inl (HttpError 403 ''You are not a member of this group'')
          else
            case getGroupMessages_findMany d gid now of
              None \<Rightarrow> Inl (HttpError 500 ''Server error retrieving group messages'')
            | Some messages \<Rightarrow>
                Inr (map (messagesWithNicknames (memberNicknames d grp) gid) messages))"

section \<open>message.controller.js: markMessageRead\<close>

text \<open>
  The participant test the handlers share: the group branch runs when \<open>message.groupId\<close>
  is truthy, and holds when the group exists and lists the user.
\<close>

definition in_group_of :: "db \<Rightarrow> message \<Rightarrow> string \<Rightarrow> bool" where
  "in_group_of d message uid =
     (truthy_str (groupId message) \<and>
      (case findUnique_group (the (groupId message)) (db_groups d) of
         None \<Rightarrow> False
       | Some grp \<Rightarrow> uid \<in> set (memberIds grp)))"

definition canMarkAsRead :: "db \<Rightarrow> message \<Rightarrow> string \<Rightarrow> bool" where
  "canMarkAsRead d message uid =
     (if receiverId message = Some uid then True else in_group_of d message uid)"

definition markMessageRead :: "db \<Rightarrow> string \<Rightarrow> string \<Rightarrow> http_error + db" where
  "markMessageRead d mid uid =
     (case findUnique_message mid (db_messages d) of
        None \<Rightarrow> Inl (HttpError 404 ''Message not found'')
      | Some message \<Rightarrow>
          if \<not> canMarkAsRead d message uid
          then Inl (HttpError 403 ''Not authorized to mark this message as read'')
          else Inr (d\<lparr>db_messages :=
                        update_message mid (\<lambda>m. m\<lparr>isRead := True, isDelivered := True\<rparr>)
                          (db_messages d)\<rparr>))"

section \<open>media.controller.js: getMedia\<close>

text \<open>
  \<open>path.basename\<close> (POSIX): trailing slashes are dropped, then the part after the last
  slash is kept.
\<close>

definition basename :: "string \<Rightarrow> string" where
  "basename p =
     rev (takeWhile (\<lambda>c. c \<noteq> CHR ''/'') (dropWhile (\<lambda>c. c = CHR ''/'') (rev p)))"

text \<open>
  The file of a message, as \<open>cleanupExpiredMedia\<close> takes it: the last path segment of its
  \<open>mediaUrl\<close>.
\<close>

definition references_file :: "message \<Rightarrow> string \<Rightarrow> bool" where
  "references_file m x = (case mediaUrl m of None \<Rightarrow> False | Some url \<Rightarrow> basename url = x)"

text \<open>
  The storage directory is the set of the names of the files it holds. The handler
  either calls \<open>res.sendFile\<close> on a file of the directory or answers with a status and a
  message.
\<close>

datatype media_response = SendFile string | Json nat string

definition hasAccess :: "db \<Rightarrow> message \<Rightarrow> string \<Rightarrow> bool" where
  "hasAccess d message uid =
     (if senderId message = uid \<or> receiverId message = Some uid then True
      else in_group_of d message uid)"

definition media_where :: "string \<Rightarrow> where_obj" where
  "media_where sanitizedFilename =
     object_literal [(K_mediaUrl, Cond (Contains sanitizedFilename))]"

text \<open>
  The result is the response, the storage directory and the database after the request.
  In the view-once branch the file is unlinked when the response has finished; the state
  returned is the one after that.
\<close>

definition getMedia ::
  "string set \<Rightarrow> db \<Rightarrow> string \<Rightarrow> string \<Rightarrow> int \<Rightarrow> media_response \<times> string set \<times> db" where
  "getMedia files d uid filename now =
     (let sanitizedFilename = basename filename in
      if sanitizedFilename \<notin> files then (Json 404 ''Media not found'', files, d)
      else
        case findFirst_message (media_where sanitizedFilename) (db_messages d) of
          None \<Rightarrow> (SendFile sanitizedFilename, files, d)
        | Some message \<Rightarrow>
            if \<not> hasAccess d message uid
            then (Json 403 ''Not authorized to access this media'', files, d)
            else if (case expiresAt message of None \<Rightarrow> False | Some t \<Rightarrow> t < now)
            then (Json 404 ''Media has expired'', files - {sanitizedFilename}, d)
            else if expiresAt message \<noteq> None \<and> \<not> isRead message
            then (SendFile sanitizedFilename, files - {sanitizedFilename},
                  d\<lparr>db_messages :=
                      update_message (id_message message)
                        (\<lambda>m. m\<lparr>isRead := True, isDelivered := True\<rparr>) (db_messages d)\<rparr>)
            else (SendFile sanitizedFilename, files, d))"

section \<open>group.controller.js: getGroupDetails\<close>

record admin_view =
  id_admin :: string
  username_admin :: "string option"
  profilePic_admin :: "string option"

text \<open>
  A member as the query selects it; the mapping adds \<open>nickname\<close> and \<open>isVisible\<close> when
  the member has a nickname row (\<open>None\<close>: the key is absent).
\<close>

record member_view =
  id_member :: string
  username_member :: "string option"
  phoneNumber_member :: string
  profilePic_member :: "string option"
  isOnline_member :: bool
  lastSeen_member :: int
  nickname_member :: "string option"
  isVisible_member :: "bool option"

record group_details =
  id_details :: string
  name_details :: string
  description_details :: "string option"
  profilePic_details :: "string option"
  isPrivate_details :: bool
  allowAnonymous_details :: bool
  messageExpiry_details :: "int option"
  admin_details :: admin_view
  members_details :: "member_view list"
  createdAt_details :: int
  updatedAt_details :: int
  inviteCode_details :: "string option"

definition select_admin :: "user_row \<Rightarrow> admin_view" where
  "select_admin u =
     \<lparr>id_admin = id_user u, username_admin = username u, profilePic_admin = profilePic u\<rparr>"

definition select_member :: "user_row \<Rightarrow> member_view" where
  "select_member u =
     \<lparr>id_member = id_user u,
      username_member = username u,
      phoneNumber_member = phoneNumber u,
      profilePic_member = profilePic u,
      isOnline_member = isOnline u,
      lastSeen_member = lastSeen u,
      nickname_member = None,
      isVisible_member = None\<rparr>"

text \<open>\<open>group.members\<close>: the users whose id the group lists.\<close>

definition members :: "db \<Rightarrow> group_row \<Rightarrow> member_view list" where
  "members d grp =
     map select_member (filter (\<lambda>u. id_user u \<in> set (memberIds grp)) (db_users d))"

text \<open>\<open>group.groupInvites\<close> with \<open>where: {expiresAt: {gt: new Date()}}\<close>.\<close>

definition groupInvites :: "db \<Rightarrow> group_row \<Rightarrow> int \<Rightarrow> group_invite list" where
  "groupInvites d grp now =
     filter (\<lambda>i. groupId_invite i = id_group grp \<and> now < expiresAt_invite i) (db_invites d)"

definition membersWithNicknames ::
  "member_nickname list \<Rightarrow> string \<Rightarrow> member_view \<Rightarrow> member_view" where
  "membersWithNicknames nicknames gid member =
     (case find (\<lambda>n. userId_nickname n = id_member member \<and> groupId_nickname n = gid)
             nicknames of
        Some n \<Rightarrow>
          member\<lparr>nickname_member := Some (nickname n), isVisible_member := Some (isVisible n)\<rparr>
      | None \<Rightarrow> member)"

text \<open>The filter callback for a reader who is not the admin.\<close>

definition visible_to :: "group_row \<Rightarrow> string \<Rightarrow> member_view \<Rightarrow> bool" where
  "visible_to grp uid member =
     (if id_member member = adminId grp then True
      else if id_member member = uid then True
      else isVisible_member member \<noteq> Some False)"

definition visibleMembers ::
  "db \<Rightarrow> group_row \<Rightarrow> string \<Rightarrow> string \<Rightarrow> member_view list" where
  "visibleMembers d grp uid gid =
     (let withNicknames = map (membersWithNicknames (memberNicknames d grp) gid) (members d grp)
      in if uid \<noteq> adminId grp then filter (visible_to grp uid) withNicknames
         else withNicknames)"

definition activeInvite :: "db \<Rightarrow> group_row \<Rightarrow> string \<Rightarrow> int \<Rightarrow> string option" where
  "activeInvite d grp uid now =
     (case groupInvites d grp now of
        [] \<Rightarrow> None
      | i # _ \<Rightarrow> if uid = adminId grp then Some (inviteCode i) else None)"

text \<open>
  \<open>admin\<close> is a required relation of the group: a group whose admin row is missing makes
  the query throw, and the handler's \<open>catch\<close> answers 500.
\<close>

definition getGroupDetails ::
  "db \<Rightarrow> string \<Rightarrow> string \<Rightarrow> int \<Rightarrow> http_error + group_details" where
  "getGroupDetails d uid gid now =
     (case findUnique_group gid (db_groups d) of
        None \<Rightarrow> Inl (HttpError 404 ''Group not found'')
      | Some grp \<Rightarrow>
          (case findUnique_user (adminId grp) (db_users d) of
             None \<Rightarrow> Inl (HttpError 500 ''Server error retrieving group details'')
           | Some admin \<Rightarrow>
               if uid \<notin> set (memberIds grp)
               then Inl (HttpError 403 ''You are not a member of this group'')
               else Inr
                 \<lparr>id_details = id_group grp,
                  name_details = name_group grp,
                  description_details = description grp,
                  profilePic_details = profilePic_group grp,
                  isPrivate_details = isPrivate grp,
                  allowAnonymous_details = allowAnonymous grp,
                  messageExpiry_details = messageExpiry grp,
                  admin_details = select_admin admin,
                  members_details = visibleMembers d grp uid gid,
                  createdAt_details = createdAt_group grp,
                  updatedAt_details = updatedAt_group grp,
                  inviteCode_details = activeInvite d grp uid now\<rparr>))"

section \<open>otp.util.js: saveOTP and verifyOTP\<close>

definition findUnique_otp :: "string \<Rightarrow> otp_data list \<Rightarrow> otp_data option" where
  "findUnique_otp uid os = find (\<lambda>x. userId_otp x = uid) os"

text \<open>
  \<open>OTP_EXPIRY\<close> is \<open>parseInt(process.env.OTP_EXPIRY)\<close>, the lifetime in seconds; \<open>now\<close> is
  \<open>Date.now()\<close>.
\<close>

definition saveOTP :: "int \<Rightarrow> db \<Rightarrow> string \<Rightarrow> string \<Rightarrow> int \<Rightarrow> db" where
  "saveOTP OTP_EXPIRY d uid code now =
     (let expires = now + OTP_EXPIRY * 1000 in
      case findUnique_otp uid (db_otps d) of
        Some existingOtp \<Rightarrow>
          d\<lparr>db_otps :=
              map (\<lambda>x. if userId_otp x = uid then x\<lparr>otp := code, expiresAt_otp := expires\<rparr>
                        else x)
                (db_otps d)\<rparr>
      | None \<Rightarrow>
          d\<lparr>db_otps :=
              db_otps d @ [\<lparr>userId_otp = uid, otp = code, expiresAt_otp = expires\<rparr>]\<rparr>)"

text \<open>The function takes no clock reading: it has no \<open>Date\<close> expression.\<close>

definition verifyOTP :: "db \<Rightarrow> string \<Rightarrow> string \<Rightarrow> bool \<times> db" where
  "verifyOTP d uid providedOtp =
     (case findUnique_otp uid (db_otps d) of
        None \<Rightarrow> (False, d)
      | Some otpData \<Rightarrow>
          if otp otpData \<noteq> providedOtp then (False, d)
          else (True, d\<lparr>db_otps := filter (\<lambda>x. userId_otp x \<noteq> uid) (db_otps d)\<rparr>))"

section \<open>encryption.util.js: encryptMessage and decryptMessage\<close>

text \<open>
  A JavaScript string is the list of its UTF-16 code units (numbers below 65536); a buffer
  is a list of bytes.
\<close>

subsection \<open>The UTF-8 conversion of \<open>Buffer\<close> and of the cipher's \<open>'utf8'\<close> encoding\<close>

text \<open>
  Encoding reads the string as code points: a high surrogate followed by a low one is one
  code point, any other surrogate is replaced by U+FFFD. Decoding accepts the well-formed
  byte sequences of UTF-8 and gives U+FFFD for a byte that starts none; how many
  replacement characters a malformed run of bytes gives is simplified to one per byte.
\<close>

definition high_surrogate :: "nat \<Rightarrow> bool" where
  "high_surrogate u = (0xD800 \<le> u \<and> u \<le> 0xDBFF)"

definition low_surrogate :: "nat \<Rightarrow> bool" where
  "low_surrogate u = (0xDC00 \<le> u \<and> u \<le> 0xDFFF)"

definition lone :: "nat \<Rightarrow> nat" where
  "lone u = (if high_surrogate u \<or> low_surrogate u then 0xFFFD else u)"

fun code_points :: "nat list \<Rightarrow> nat list" where
  "code_points [] = []"
| "code_points [u] = [lone u]"
| "code_points (u # l # rest) =
     (if high_surrogate u \<and> low_surrogate l
      then (0x10000 + (u - 0xD800) * 0x400 + (l - 0xDC00)) # code_points rest
      else lone u # code_points (l # rest))"

definition utf8_of :: "nat \<Rightarrow> nat list" where
  "utf8_of cp =
     (if cp < 0x80 then [cp]
      else if cp < 0x800 then [0xC0 + cp div 0x40, 0x80 + cp mod 0x40]
      else if cp < 0x10000
      then [0xE0 + cp div 0x1000, 0x80 + cp div 0x40 mod 0x40, 0x80 + cp mod 0x40]
      else [0xF0 + cp div 0x40000, 0x80 + cp div 0x1000 mod 0x40,
            0x80 + cp div 0x40 mod 0x40, 0x80 + cp mod 0x40])"

text \<open>\<open>Buffer.from(s, 'utf8')\<close>.\<close>

definition utf8_bytes :: "nat list \<Rightarrow> char list" where
  "utf8_bytes s = map char_of (concat (map utf8_of (code_points s)))"

definition continuation :: "nat \<Rightarrow> bool" where
  "continuation b = (0x80 \<le> b \<and> b < 0xC0)"

definition decode_sequence :: "nat \<Rightarrow> nat list \<Rightarrow> (nat \<times> nat) option" where
  "decode_sequence b0 bs =
     (if 0xC2 \<le> b0 \<and> b0 < 0xE0 then
        (case bs of
           b1 # _ \<Rightarrow>
             if continuation b1 then Some ((b0 - 0xC0) * 0x40 + (b1 - 0x80), 1) else None
         | _ \<Rightarrow> None)
      else if 0xE0 \<le> b0 \<and> b0 < 0xF0 then
        (case bs of
           b1 # b2 # _ \<Rightarrow>
             (let cp = (b0 - 0xE0) * 0x1000 + (b1 - 0x80) * 0x40 + (b2 - 0x80) in
              if continuation b1 \<and> continuation b2 \<and> 0x800 \<le> cp \<and>
                 \<not> (0xD800 \<le> cp \<and> cp \<le> 0xDFFF)
              then Some (cp, 2) else None)
         | _ \<Rightarrow> None)
      else if 0xF0 \<le> b0 \<and> b0 < 0xF5 then
        (case bs of
           b1 # b2 # b3 # _ \<Rightarrow>
             (let cp = (b0 - 0xF0) * 0x40000 + (b1 - 0x80) * 0x1000 + (b2 - 0x80) * 0x40
                       + (b3 - 0x80) in
              if continuation b1 \<and> continuation b2 \<and> continuation b3 \<and>
                 0x10000 \<le> cp \<and> cp < 0x110000
              then Some (cp, 3) else None)
         | _ \<Rightarrow> None)
      else None)"

function scalar_values :: "nat list \<Rightarrow> nat list" where
  "scalar_values [] = []"
| "scalar_values (b0 # bs) =
     (if b0 < 0x80 then b0 # scalar_values bs
      else case decode_sequence b0 bs of
             Some (cp, n) \<Rightarrow> cp # scalar_values (drop n bs)
           | None \<Rightarrow> 0xFFFD # scalar_values bs)"
  by pat_completeness auto
termination
  by (relation "measure length") auto

definition code_units :: "nat \<Rightarrow> nat list" where
  "code_units cp =
     (if cp < 0x10000 then [cp]
      else [0xD800 + (cp - 0x10000) div 0x400, 0xDC00 + (cp - 0x10000) mod 0x400])"

text \<open>\<open>buffer.toString('utf8')\<close>.\<close>

definition utf8_string :: "char list \<Rightarrow> nat list" where
  "utf8_string b = concat (map code_units (scalar_values (map of_char b)))"

text \<open>A string with no unpaired surrogate.\<close>

fun well_formed :: "nat list \<Rightarrow> bool" where
  "well_formed [] = True"
| "well_formed [u] = (u < 0x10000 \<and> \<not> high_surrogate u \<and> \<not> low_surrogate u)"
| "well_formed (u # l # rest) =
     (if high_surrogate u then low_surrogate l \<and> well_formed rest
      else u < 0x10000 \<and> \<not> low_surrogate u \<and> well_formed (l # rest))"

text \<open>A Unicode scalar value: a code point that is not a surrogate.\<close>

definition scalar :: "nat \<Rightarrow> bool" where
  "scalar cp = (cp < 0x110000 \<and> \<not> (0xD800 \<le> cp \<and> cp \<le> 0xDFFF))"

subsection \<open>The two functions\<close>

text \<open>
  The two functions call Node's library and nothing else of the repository. Apart from
  the UTF-8 conversion above, the library functions are parameters:
  \<^item> \<open>aes_gcm_encrypt key iv data\<close> is the ciphertext and the authentication tag that
    \<open>createCipheriv('aes-256-gcm', key, iv)\<close> produces for \<open>data\<close> (\<open>update\<close>, \<open>final\<close>,
    \<open>getAuthTag\<close>);
  \<^item> \<open>aes_gcm_decrypt key iv tag data\<close> is what \<open>createDecipheriv\<close> with \<open>setAuthTag\<close>
    returns, \<open>None\<close> when \<open>final\<close> throws;
  \<^item> \<open>base64\<close> and \<open>from_base64\<close> convert between a buffer and its base64 string;
  \<^item> \<open>stringify\<close> and \<open>parse\<close> are \<open>JSON.stringify\<close> and \<open>JSON.parse\<close> on the envelope
    object, \<open>parse\<close> giving \<open>None\<close> when it throws.
\<close>

record envelope =
  iv_envelope :: "nat list"
  authTag_envelope :: "nat list"
  encryptedData_envelope :: "nat list"

record node_library =
  aes_gcm_encrypt :: "char list \<Rightarrow> char list \<Rightarrow> char list \<Rightarrow> char list \<times> char list"
  aes_gcm_decrypt :: "char list \<Rightarrow> char list \<Rightarrow> char list \<Rightarrow> char list \<Rightarrow> char list option"
  base64 :: "char list \<Rightarrow> nat list"
  from_base64 :: "nat list \<Rightarrow> char list"
  stringify :: "envelope \<Rightarrow> nat list"
  parse :: "nat list \<Rightarrow> envelope option"

datatype crypto_error = SyntaxError | AuthenticationFailed

text \<open>
  \<open>iv\<close> is the value of \<open>crypto.randomBytes(16)\<close>. The base64 text of the ciphertext is
  built from the output of \<open>update\<close> followed by that of \<open>final\<close>; the model encodes the
  whole ciphertext at once.
\<close>

definition encryptMessage :: "node_library \<Rightarrow> char list \<Rightarrow> nat list \<Rightarrow> char list \<Rightarrow> nat list" where
  "encryptMessage lib iv message aesKey =
     (let (encrypted, authTag) = aes_gcm_encrypt lib aesKey iv (utf8_bytes message);
          result = stringify lib
            \<lparr>iv_envelope = base64 lib iv,
             authTag_envelope = base64 lib authTag,
             encryptedData_envelope = base64 lib encrypted\<rparr>
      in base64 lib (utf8_bytes result))"

definition decryptMessage ::
  "node_library \<Rightarrow> nat list \<Rightarrow> char list \<Rightarrow> crypto_error + nat list" where
  "decryptMessage lib encryptedMessage aesKey =
     (case parse lib (utf8_string (from_base64 lib encryptedMessage)) of
        None \<Rightarrow> Inl SyntaxError
      | Some encryptedObj \<Rightarrow>
          (let iv = from_base64 lib (iv_envelope encryptedObj);
               authTag = from_base64 lib (authTag_envelope encryptedObj);
               encryptedData = encryptedData_envelope encryptedObj
           in case aes_gcm_decrypt lib aesKey iv authTag (from_base64 lib encryptedData) of
                None \<Rightarrow> Inl AuthenticationFailed
              | Some decrypted \<Rightarrow> Inr (utf8_string decrypted)))"

text \<open>
  What the two functions ask of the library: base64 decoding inverts encoding; the JSON
  text of an envelope of base64 strings has no unpaired surrogate, and \<open>JSON.parse\<close> gives
  the envelope back from it; AES-GCM decryption under the same key, iv and tag returns
  the data.
\<close>

definition lawful :: "node_library \<Rightarrow> char list \<Rightarrow> char list \<Rightarrow> bool" where
  "lawful lib aesKey iv \<longleftrightarrow>
     (\<forall>b. from_base64 lib (base64 lib b) = b) \<and>
     (\<forall>a b c. well_formed (stringify lib
        \<lparr>iv_envelope = base64 lib a, authTag_envelope = base64 lib b,
         encryptedData_envelope = base64 lib c\<rparr>)) \<and>
     (\<forall>a b c. parse lib (stringify lib
        \<lparr>iv_envelope = base64 lib a, authTag_envelope = base64 lib b,
         encryptedData_envelope = base64 lib c\<rparr>) =
        Some \<lparr>iv_envelope = base64 lib a, authTag_envelope = base64 lib b,
              encryptedData_envelope = base64 lib c\<rparr>) \<and>
     (\<forall>data. aes_gcm_decrypt lib aesKey iv (snd (aes_gcm_encrypt lib aesKey iv data))
                (fst (aes_gcm_encrypt lib aesKey iv data)) = Some data)"

text \<open>
  A library to evaluate the two functions with. Its cipher reverses the data and uses
  the key and the iv as the tag, its base64 text of a buffer is the list of the byte
  values, and its JSON text is the three fields separated by the unit 256. It stands for
  no real cipher or codec.
\<close>

definition toy_library :: node_library where
  "toy_library =
     \<lparr>aes_gcm_encrypt = (\<lambda>k iv data. (rev data, k @ iv)),
      aes_gcm_decrypt = (\<lambda>k iv tag data. if tag = k @ iv then Some (rev data) else None),
      base64 = map of_char,
      from_base64 = map char_of,
      stringify = (\<lambda>e. iv_envelope e @ [256] @ authTag_envelope e @ [256]
                       @ encryptedData_envelope e),
      parse = (\<lambda>s.
         let r = drop 1 (dropWhile (\<lambda>u. u \<noteq> 256) s) in
         Some \<lparr>iv_envelope = takeWhile (\<lambda>u. u \<noteq> 256) s,
               authTag_envelope = takeWhile (\<lambda>u. u \<noteq> 256) r,
               encryptedData_envelope = drop 1 (dropWhile (\<lambda>u. u \<noteq> 256) r)\<rparr>)\<rparr>"

section \<open>Example data\<close>

definition blank_message :: message where
  "blank_message =
     \<lparr>id_message = [], senderId = [], receiverId = None, groupId = None, content = [],
      encryptedKey = [], mediaUrl = None, mediaType = None, isRead = False,
      isDelivered = False, isAnonymous = False, expiresAt = None, deleted = False,
      createdAt = 0\<rparr>"

definition empty_db :: db where
  "empty_db =
     \<lparr>db_users = [], db_messages = [], db_reactions = [], db_groups = [], db_invites = [],
      db_nicknames = [], db_otps = []\<rparr>"

definition user_named :: "string \<Rightarrow> user_row" where
  "user_named n =
     \<lparr>id_user = n, phoneNumber = ''+250'' @ n, username = Some n, profilePic = None,
      isOnline = False, lastSeen = 0\<rparr>"

text \<open>Group \<open>g1\<close>: admin alice, members alice, bob and carol, anonymous messages allowed.\<close>

definition g1 :: group_row where
  "g1 =
     \<lparr>id_group = ''g1'', name_group = ''team'', description = None, profilePic_group = None,
      isPrivate = True, adminId = ''alice'', memberIds = [''alice'', ''bob'', ''carol''],
      messageExpiry = None, allowAnonymous = True, createdAt_group = 0,
      updatedAt_group = 0\<rparr>"

definition group_db :: db where
  "group_db =
     empty_db\<lparr>db_users := map user_named [''alice'', ''bob'', ''carol'', ''dave''],
       db_groups := [g1]\<rparr>"

definition carol_to_dave :: message where
  "carol_to_dave =
     blank_message\<lparr>id_message := ''m1'', senderId := ''carol'', receiverId := Some ''dave'',
       createdAt := 10\<rparr>"

definition bob_to_alice :: message where
  "bob_to_alice =
     blank_message\<lparr>id_message := ''m2'', senderId := ''bob'', receiverId := Some ''alice'',
       createdAt := 20\<rparr>"

definition anonymous_in_g1 :: message where
  "anonymous_in_g1 =
     blank_message\<lparr>id_message := ''m3'', senderId := ''alice'', groupId := Some ''g1'',
       isAnonymous := True, createdAt := 30\<rparr>"

text \<open>A photo for bob with the deadline 500.\<close>

definition photo_to_bob :: message where
  "photo_to_bob =
     blank_message\<lparr>id_message := ''m4'', senderId := ''alice'', receiverId := Some ''bob'',
       mediaUrl := Some ''/api/media/a.png'', mediaType := Some ''image'',
       expiresAt := Some 500, createdAt := 40\<rparr>"

text \<open>A sticker for bob whose file name, \<open>aa.png\<close>, contains the photo's.\<close>

definition sticker_to_bob :: message where
  "sticker_to_bob =
     blank_message\<lparr>id_message := ''m7'', senderId := ''alice'', receiverId := Some ''bob'',
       mediaUrl := Some ''/api/media/aa.png'', mediaType := Some ''image'',
       createdAt := 35\<rparr>"

text \<open>The object the group query gives for the anonymous message, were it to succeed.\<close>

definition anonymous_object :: message_with_sender where
  "anonymous_object =
     message.extend anonymous_in_g1
       (message_with_sender.fields (select_sender (user_named ''alice'')) [])"

definition both_targets :: send_body where
  "both_targets =
     \<lparr>receiverId_body = Some ''bob'', groupId_body = Some ''g1'', content_body = Some ''aGk='',
      encryptedKey_body = Some ''a2V5'', mediaUrl_body = None, mediaType_body = None,
      isAnonymous_body = False, expiresAt_body = None\<rparr>"

text \<open>The message that body makes when alice sends it at time 1000 and it gets the id \<open>m9\<close>.\<close>

definition message_to_both :: message where
  "message_to_both =
     blank_message\<lparr>id_message := ''m9'', senderId := ''alice'', receiverId := Some ''bob'',
       groupId := Some ''g1'', content := ''aGk='', encryptedKey := ''a2V5'',
       createdAt := 1000\<rparr>"

definition alice_nickname :: member_nickname where
  "alice_nickname =
     \<lparr>id_nickname = ''n1'', userId_nickname = ''alice'', groupId_nickname = ''g1'',
      nickname = ''Boss'', isVisible = False\<rparr>"

definition carol_nickname :: member_nickname where
  "carol_nickname =
     \<lparr>id_nickname = ''n2'', userId_nickname = ''carol'', groupId_nickname = ''g1'',
      nickname = ''Shadow'', isVisible = False\<rparr>"

text \<open>Group \<open>g1\<close> with hidden aliases for alice and carol and one anonymous message.\<close>

definition nickname_db :: db where
  "nickname_db =
     group_db\<lparr>db_nicknames := [alice_nickname, carol_nickname],
       db_messages := [anonymous_in_g1]\<rparr>"

lemmas example_defs =
  blank_message_def empty_db_def user_named_def g1_def group_db_def carol_to_dave_def
  bob_to_alice_def anonymous_in_g1_def photo_to_bob_def sticker_to_bob_def
  anonymous_object_def both_targets_def message_to_both_def alice_nickname_def carol_nickname_def
  nickname_db_def

section \<open>Facts about the filters\<close>

lemma getMessagesByUser_where_eval:
  "getMessagesByUser_where c o' now =
     [(K_OR, OR_of [[(K_expiresAt, Is_null)], [(K_expiresAt, Gt now)]]),
      (K_deleted, Cond (Eq_bool False))]"
  by (simp add: getMessagesByUser_where_def object_literal_def)

lemma mark_delivered_where_eval:
  "mark_delivered_where c o' =
     [(K_senderId, Cond (Eq_str o')), (K_receiverId, Cond (Eq_str c)),
      (K_isDelivered, Cond (Eq_bool False))]"
  by (simp add: mark_delivered_where_def object_literal_def)

lemma matches_getMessagesByUser_where:
  "matches_where m (getMessagesByUser_where c o' now) \<longleftrightarrow>
     (expiresAt m = None \<or> (\<exists>t. expiresAt m = Some t \<and> now < t)) \<and> \<not> deleted m"
  by (cases "expiresAt m")
     (auto simp: getMessagesByUser_where_eval matches_where_def matches_flat_def
        field_holds_def)

lemma matches_mark_delivered_where:
  "matches_where m (mark_delivered_where c o') \<longleftrightarrow>
     senderId m = o' \<and> receiverId m = Some c \<and> \<not> isDelivered m"
  by (cases "receiverId m")
     (auto simp: mark_delivered_where_eval matches_where_def field_holds_def)

text \<open>The lookup of \<open>getMedia\<close> matches a message when its \<open>mediaUrl\<close> contains the name.\<close>

lemma matches_media_where:
  "matches_where m (media_where x) \<longleftrightarrow>
     (case mediaUrl m of None \<Rightarrow> False | Some url \<Rightarrow> contains_str url x)"
  by (cases "mediaUrl m")
     (simp_all add: media_where_def object_literal_def matches_where_def field_holds_def)

section \<open>Facts about \<open>include\<close>\<close>

text \<open>
  \<open>Reaction\<close> has no relation field \<open>user\<close>: the \<open>include\<close> of the group query is not valid
  for \<open>Message\<close>. The \<open>include\<close>s of the other modelled queries are valid: \<open>reactions\<close> of a
  message in \<open>getMessagesByUser\<close>, and in the group lookups \<open>members\<close> (\<open>sendMessage\<close>,
  \<open>markMessageRead\<close>), \<open>members\<close> and \<open>memberNicknames\<close> (\<open>getGroupMessages\<close>), and \<open>admin\<close>,
  \<open>members\<close>, \<open>memberNicknames\<close> and \<open>groupInvites\<close> (\<open>getGroupDetails\<close>).
\<close>

lemma getGroupMessages_include_invalid:
  "\<not> valid_include Message_model getGroupMessages_include"
  by (simp add: valid_include_def getGroupMessages_include_def)

lemma other_includes_valid:
  "valid_include Message_model [(''reactions'', [])]"
  "valid_include Group_model [(''members'', [])]"
  "valid_include Group_model [(''members'', []), (''memberNicknames'', [])]"
  "valid_include Group_model
     [(''admin'', []), (''members'', []), (''memberNicknames'', []), (''groupInvites'', [])]"
  by (simp_all add: valid_include_def)

text \<open>Hence the group query throws, and the handler answers one of three errors.\<close>

lemma getGroupMessages_findMany_throws: "getGroupMessages_findMany d g now = None"
  by (simp add: getGroupMessages_findMany_def getGroupMessages_include_invalid)

lemma getGroupMessages_cases:
  "getGroupMessages d u g now =
     (case findUnique_group g (db_groups d) of
        None \<Rightarrow> Inl (HttpError 404 ''Group not found'')
      | Some grp \<Rightarrow>
          if u \<notin> set (memberIds grp)
          then Inl (HttpError 403 ''You are not a member of this group'')
          else Inl (HttpError 500 ''Server error retrieving group messages''))"
  by (simp add: getGroupMessages_def getGroupMessages_findMany_throws split: option.splits)

section \<open>Facts about the returned objects\<close>

text \<open>The columns of a returned object are those of the stored message it was built from.\<close>

lemma truncate_include_reactions: "message.truncate (include_reactions rs m) = m"
  by (simp add: include_reactions_def message.defs message_with_reactions.defs)

lemma getMessagesByUser_elem:
  assumes "v \<in> set (fst (getMessagesByUser d u w now))"
  shows "message.truncate v \<in> set (db_messages d) \<and>
         matches_where (message.truncate v) (getMessagesByUser_where u w now)"
  using assms
  by (auto simp: getMessagesByUser_def findMany_message_def truncate_include_reactions Let_def)

section \<open>Direct conversations: who is in the result (C1)\<close>

text \<open>
  The second \<open>OR\<close> of the filter replaces the first, so the query selects every message
  that is neither deleted nor past its deadline, whoever sent or received it.
\<close>

lemma getMessagesByUser_result:
  "map message.truncate (fst (getMessagesByUser d u v now)) =
     sort_key createdAt
       (filter (\<lambda>m. (expiresAt m = None \<or> (\<exists>t. expiresAt m = Some t \<and> now < t)) \<and> \<not> deleted m)
          (db_messages d))"
  by (simp add: getMessagesByUser_def findMany_message_def matches_getMessagesByUser_where
      truncate_include_reactions Let_def comp_def)

text \<open>
  C1. Claim: every message that \<open>getMessagesByUser\<close> returns to user U has U as its sender
  or its direct receiver. The code returns more. In a database whose only message is a
  direct message from carol to dave, alice's request for her conversation with bob
  returns that message.
\<close>

theorem getMessagesByUser_returns_foreign_message:
  "map message.truncate
     (fst (getMessagesByUser (empty_db\<lparr>db_messages := [carol_to_dave]\<rparr>) ''alice'' ''bob'' 1000))
     = [carol_to_dave] \<and>
   senderId carol_to_dave = ''carol'' \<and> receiverId carol_to_dave = Some ''dave'' \<and>
   groupId carol_to_dave = None"
  by (simp add: getMessagesByUser_result example_defs)

section \<open>Creating a message: receiver and group (C2)\<close>

lemma or_null_truthy: "truthy_str v \<Longrightarrow> or_null v = v"
  by (simp add: or_null_def)

lemma or_null_None: "or_null v = None \<longleftrightarrow> \<not> truthy_str v"
  by (cases v) (auto simp: or_null_def truthy_str_def)

lemma sendMessage_cases:
  "sendMessage d s body i now =
     (if \<not> truthy_str (receiverId_body body) \<and> \<not> truthy_str (groupId_body body)
      then Inl (HttpError 400 ''Please provide either a receiver ID or group ID'')
      else if truthy_str (groupId_body body) \<and> sendMessage_group_checks d s body \<noteq> None
      then Inl (the (sendMessage_group_checks d s body))
      else case create_message i now s body of
             None \<Rightarrow> Inl (HttpError 500 ''Server error sending message'')
           | Some m \<Rightarrow> Inr (m, d\<lparr>db_messages := db_messages d @ [m]\<rparr>))"
  by (simp add: sendMessage_def split: option.splits)

lemma create_message_targets:
  assumes "create_message i now s body = Some m"
  shows "receiverId m = or_null (receiverId_body body) \<and>
         groupId m = or_null (groupId_body body)"
proof -
  from assms obtain c k where
    "m = \<lparr>id_message = i, senderId = s,
          receiverId = or_null (receiverId_body body),
          groupId = or_null (groupId_body body),
          content = c, encryptedKey = k,
          mediaUrl = or_null (mediaUrl_body body),
          mediaType = or_null (mediaType_body body),
          isRead = False, isDelivered = False,
          isAnonymous = isAnonymous_body body,
          expiresAt = (if truthy_num (expiresAt_body body) then expiresAt_body body else None),
          deleted = False, createdAt = now\<rparr>"
    by (auto simp: create_message_def split: option.splits if_splits)
  then show ?thesis by simp
qed

lemma sendMessage_Inr:
  assumes "sendMessage d s body i now = Inr (m', d')"
  shows "(truthy_str (receiverId_body body) \<or> truthy_str (groupId_body body)) \<and>
         create_message i now s body = Some m' \<and>
         d' = d\<lparr>db_messages := db_messages d @ [m']\<rparr>"
proof (cases "create_message i now s body")
  case None
  with assms show ?thesis unfolding sendMessage_cases by (simp split: if_splits)
next
  case (Some m)
  with assms show ?thesis unfolding sendMessage_cases by (auto split: if_splits)
qed

text \<open>
  C2, as claimed: a request with both a receiver id and a group id is rejected. It is not:
  alice, a member of \<open>g1\<close>, sends a body that names bob and \<open>g1\<close>, and the message is
  stored with both.
\<close>

theorem sendMessage_accepts_receiver_and_group:
  "sendMessage group_db ''alice'' both_targets ''m9'' 1000 =
     Inr (message_to_both, group_db\<lparr>db_messages := [message_to_both]\<rparr>) \<and>
   receiverId message_to_both = Some ''bob'' \<and>
   groupId message_to_both = Some ''g1''"
  by (simp add: sendMessage_cases sendMessage_group_checks_def findUnique_group_def
      create_message_def or_null_def truthy_str_def truthy_num_def example_defs)

text \<open>
  C2, amended. A request with neither a receiver id nor a group id is answered 400 (and
  stores nothing: an error result carries no database). A request with both is never
  answered with that error, and when it is stored it is stored with both as given. Every
  message \<open>sendMessage\<close> stores has a receiver id or a group id, and is appended to the
  stored messages.
\<close>

theorem sendMessage_receiver_or_group:
  "(\<not> truthy_str (receiverId_body body) \<and> \<not> truthy_str (groupId_body body) \<longrightarrow>
      sendMessage d s body i now =
        Inl (HttpError 400 ''Please provide either a receiver ID or group ID'')) \<and>
   (truthy_str (receiverId_body body) \<and> truthy_str (groupId_body body) \<longrightarrow>
      sendMessage d s body i now \<noteq>
        Inl (HttpError 400 ''Please provide either a receiver ID or group ID'') \<and>
      (sendMessage d s body i now = Inr (m', d') \<longrightarrow>
         receiverId m' = receiverId_body body \<and> groupId m' = groupId_body body)) \<and>
   (sendMessage d s body i now = Inr (m', d') \<longrightarrow>
      (receiverId m' \<noteq> None \<or> groupId m' \<noteq> None) \<and>
      db_messages d' = db_messages d @ [m'])"
proof (intro conjI impI)
  assume "\<not> truthy_str (receiverId_body body) \<and> \<not> truthy_str (groupId_body body)"
  then show "sendMessage d s body i now =
        Inl (HttpError 400 ''Please provide either a receiver ID or group ID'')"
    by (simp add: sendMessage_cases)
next
  assume b: "truthy_str (receiverId_body body) \<and> truthy_str (groupId_body body)"
  show "sendMessage d s body i now \<noteq>
        Inl (HttpError 400 ''Please provide either a receiver ID or group ID'')"
  proof (cases "sendMessage_group_checks d s body")
    case None
    with b show ?thesis
      by (cases "create_message i now s body") (simp_all add: sendMessage_cases)
  next
    case (Some e)
    then have "e \<noteq> HttpError 400 ''Please provide either a receiver ID or group ID''"
      by (auto simp: sendMessage_group_checks_def split: option.splits if_splits)
    with b Some show ?thesis by (simp add: sendMessage_cases)
  qed
next
  assume b: "truthy_str (receiverId_body body) \<and> truthy_str (groupId_body body)"
    and a: "sendMessage d s body i now = Inr (m', d')"
  from sendMessage_Inr [OF a] have "create_message i now s body = Some m'" by simp
  from create_message_targets [OF this] b
  show "receiverId m' = receiverId_body body" by (simp add: or_null_truthy)
next
  assume b: "truthy_str (receiverId_body body) \<and> truthy_str (groupId_body body)"
    and a: "sendMessage d s body i now = Inr (m', d')"
  from sendMessage_Inr [OF a] have "create_message i now s body = Some m'" by simp
  from create_message_targets [OF this] b
  show "groupId m' = groupId_body body" by (simp add: or_null_truthy)
next
  assume a: "sendMessage d s body i now = Inr (m', d')"
  from sendMessage_Inr [OF a]
  have t: "truthy_str (receiverId_body body) \<or> truthy_str (groupId_body body)"
    and c: "create_message i now s body = Some m'" by simp_all
  from create_message_targets [OF c] t
  show "receiverId m' \<noteq> None \<or> groupId m' \<noteq> None"
    by (auto simp: or_null_None)
next
  assume a: "sendMessage d s body i now = Inr (m', d')"
  from sendMessage_Inr [OF a] show "db_messages d' = db_messages d @ [m']" by simp
qed

text \<open>
  The cases at concrete requests of alice: a body with neither target (the empty string
  counts as absent), the body with both, which is stored, and the same body with a date
  out of range, which is answered 500 and not 400.
\<close>

theorem sendMessage_receiver_or_group_witness:
  "sendMessage group_db ''alice''
     (both_targets\<lparr>receiverId_body := None, groupId_body := Some []\<rparr>) ''m9'' 1000 =
     Inl (HttpError 400 ''Please provide either a receiver ID or group ID'') \<and>
   sendMessage group_db ''alice'' both_targets ''m9'' 1000 =
     Inr (message_to_both, group_db\<lparr>db_messages := [message_to_both]\<rparr>) \<and>
   receiverId message_to_both = Some ''bob'' \<and> groupId message_to_both = Some ''g1'' \<and>
   db_messages (group_db\<lparr>db_messages := [message_to_both]\<rparr>) =
     db_messages group_db @ [message_to_both] \<and>
   sendMessage group_db ''alice'' (both_targets\<lparr>expiresAt_body := Some 9000000000000000\<rparr>)
     ''m9'' 1000 = Inl (HttpError 500 ''Server error sending message'')"
proof -
  let ?none = "both_targets\<lparr>receiverId_body := None, groupId_body := Some []\<rparr>"
  let ?late = "both_targets\<lparr>expiresAt_body := Some 9000000000000000\<rparr>"
  let ?m = message_to_both
  let ?d' = "group_db\<lparr>db_messages := [?m]\<rparr>"
  have n: "\<not> truthy_str (receiverId_body ?none) \<and> \<not> truthy_str (groupId_body ?none)"
    by (simp add: truthy_str_def example_defs)
  have b: "truthy_str (receiverId_body both_targets) \<and> truthy_str (groupId_body both_targets)"
    by (simp add: truthy_str_def example_defs)
  have r: "sendMessage group_db ''alice'' both_targets ''m9'' 1000 = Inr (?m, ?d')"
    by (simp add: sendMessage_cases sendMessage_group_checks_def findUnique_group_def
        create_message_def or_null_def truthy_str_def truthy_num_def example_defs)
  have rb: "receiverId_body both_targets = Some ''bob''" "groupId_body both_targets = Some ''g1''"
    by (simp_all add: example_defs)
  have l: "sendMessage group_db ''alice'' ?late ''m9'' 1000 =
             Inl (HttpError 500 ''Server error sending message'')"
    by (simp add: sendMessage_cases sendMessage_group_checks_def findUnique_group_def
        create_message_def valid_date_def truthy_str_def truthy_num_def example_defs)
  from sendMessage_receiver_or_group [of ?none group_db "''alice''" "''m9''" 1000] n
  have 1: "sendMessage group_db ''alice'' ?none ''m9'' 1000 =
     Inl (HttpError 400 ''Please provide either a receiver ID or group ID'')" by blast
  from sendMessage_receiver_or_group [of both_targets group_db "''alice''" "''m9''" 1000 ?m ?d']
       b r
  have 2: "receiverId ?m = Some ''bob''" "groupId ?m = Some ''g1''"
    and 3: "db_messages ?d' = db_messages group_db @ [?m]"
    unfolding rb by blast+
  from 1 r 2 3 l show ?thesis by blast
qed

section \<open>Anonymous group messages: what the reader receives (C3)\<close>

text \<open>The callback: the \<open>sender\<close> of an anonymous message becomes the sentinel; the
  spread copies the message's own columns, \<open>senderId\<close> and \<open>isAnonymous\<close> among them.\<close>

lemma anonymous_masked:
  "isAnonymous v \<Longrightarrow> sender (messagesWithNicknames ns g v) = anonymous_sender"
  by (simp add: messagesWithNicknames_def)

lemma senderId_messagesWithNicknames:
  "senderId (messagesWithNicknames ns g v) = senderId v"
  by (simp add: messagesWithNicknames_def split: option.splits)

lemma isAnonymous_messagesWithNicknames:
  "isAnonymous (messagesWithNicknames ns g v) = isAnonymous v"
  by (cases "isAnonymous v") (simp_all add: messagesWithNicknames_def split: option.splits)


section \<open>Expired messages and the read paths (C4)\<close>

text \<open>
  The direct-conversation fetch leaves out every message whose deadline has passed, and
  the media fetch refuses when the message its lookup finds is one.
\<close>

lemma getMessagesByUser_excludes_expired:
  assumes "expiresAt m = Some t" and "t < now"
  shows "m \<notin> message.truncate ` set (fst (getMessagesByUser d u v now))"
proof
  assume "m \<in> message.truncate ` set (fst (getMessagesByUser d u v now))"
  then obtain w where "w \<in> set (fst (getMessagesByUser d u v now))" "m = message.truncate w"
    by auto
  with getMessagesByUser_elem have "matches_where m (getMessagesByUser_where u v now)"
    by blast
  with assms show False by (simp add: matches_getMessagesByUser_where)
qed

lemma getMedia_expired:
  assumes "findFirst_message (media_where (basename f)) (db_messages d) = Some m"
    and "expiresAt m = Some t" and "t < now"
  shows "fst (getMedia files d u f now) \<in>
           {Json 404 ''Media not found'', Json 403 ''Not authorized to access this media'',
            Json 404 ''Media has expired''}"
  using assms by (simp add: getMedia_def Let_def)

text \<open>
  C4. Claim: once the deadline of a message has passed, every read query excludes or
  refuses it. The media fetch does not: its lookup takes the first message whose
  \<open>mediaUrl\<close> contains the requested name. Alice sent bob the sticker \<open>aa.png\<close>, which does
  not expire, and then the photo \<open>a.png\<close> with the deadline 500; no cleanup has run and
  both files are on disk. At time 1000 bob asks for \<open>a.png\<close>: the lookup finds the sticker,
  whose \<open>mediaUrl\<close> contains \<open>a.png\<close>, and the photo's file is sent.
\<close>

theorem getMedia_sends_file_of_expired_message:
  "expiresAt photo_to_bob = Some 500 \<and> references_file photo_to_bob ''a.png'' \<and>
   \<not> references_file sticker_to_bob ''a.png'' \<and>
   getMedia {''a.png'', ''aa.png''} (empty_db\<lparr>db_messages := [sticker_to_bob, photo_to_bob]\<rparr>)
     ''bob'' ''a.png'' 1000 =
     (SendFile ''a.png'', {''a.png'', ''aa.png''},
      empty_db\<lparr>db_messages := [sticker_to_bob, photo_to_bob]\<rparr>)"
  by (simp add: getMedia_def findFirst_message_def matches_media_where references_file_def
      basename_def hasAccess_def Let_def example_defs)

section \<open>Media fetch: when the file is sent (C5)\<close>

lemma contains_str_iff: "contains_str u s \<longleftrightarrow> (\<exists>pre suf. u = pre @ s @ suf)"
proof (induction u)
  case Nil
  show ?case by simp
next
  case (Cons c cs)
  have p: "take (length s) (c # cs) = s \<longleftrightarrow> (\<exists>suf. c # cs = s @ suf)"
    by (metis append_eq_conv_conj append_take_drop_id)
  show ?case
  proof
    assume "contains_str (c # cs) s"
    then consider "take (length s) (c # cs) = s" | "contains_str cs s" by auto
    then show "\<exists>pre suf. c # cs = pre @ s @ suf"
    proof cases
      case 1
      with p obtain suf where "c # cs = [] @ s @ suf" by auto
      then show ?thesis by blast
    next
      case 2
      with Cons.IH obtain pre suf where "cs = pre @ s @ suf" by auto
      then have "c # cs = (c # pre) @ s @ suf" by simp
      then show ?thesis by blast
    qed
  next
    assume "\<exists>pre suf. c # cs = pre @ s @ suf"
    then obtain pre suf where e: "c # cs = pre @ s @ suf" by auto
    show "contains_str (c # cs) s"
    proof (cases pre)
      case Nil
      with e have "\<exists>suf. c # cs = s @ suf" by auto
      with p have "take (length s) (c # cs) = s" by blast
      then show ?thesis by simp
    next
      case (Cons a pre')
      with e have "cs = pre' @ s @ suf" by simp
      with Cons.IH show ?thesis by auto
    qed
  qed
qed

lemma rev_split3: "rev xs = a @ b @ c \<Longrightarrow> xs = rev c @ rev b @ rev a"
  by (metis append_assoc rev_append rev_rev_ident)

text \<open>A path contains its last segment: a message that references a file matches the
  lookup for it.\<close>

lemma contains_basename: "contains_str p (basename p)"
proof -
  let ?a = "takeWhile (\<lambda>c. c = CHR ''/'') (rev p)"
  let ?r = "dropWhile (\<lambda>c. c = CHR ''/'') (rev p)"
  let ?b = "takeWhile (\<lambda>c. c \<noteq> CHR ''/'') ?r"
  let ?c = "dropWhile (\<lambda>c. c \<noteq> CHR ''/'') ?r"
  have "rev p = ?a @ ?b @ ?c" by simp
  then have "p = rev ?c @ rev ?b @ rev ?a" by (rule rev_split3)
  then have "p = rev ?c @ basename p @ rev ?a" unfolding basename_def .
  then show ?thesis unfolding contains_str_iff by blast
qed

lemma references_file_matches:
  "references_file m x \<Longrightarrow> matches_where m (media_where x)"
  by (cases "mediaUrl m") (auto simp: references_file_def matches_media_where contains_basename)

lemma getMedia_cases:
  "getMedia files d u f now =
     (if basename f \<notin> files then (Json 404 ''Media not found'', files, d)
      else case findFirst_message (media_where (basename f)) (db_messages d) of
          None \<Rightarrow> (SendFile (basename f), files, d)
        | Some message \<Rightarrow>
            if \<not> hasAccess d message u
            then (Json 403 ''Not authorized to access this media'', files, d)
            else if (case expiresAt message of None \<Rightarrow> False | Some t \<Rightarrow> t < now)
            then (Json 404 ''Media has expired'', files - {basename f}, d)
            else if expiresAt message \<noteq> None \<and> \<not> isRead message
            then (SendFile (basename f), files - {basename f},
                  d\<lparr>db_messages :=
                      update_message (id_message message)
                        (\<lambda>m. m\<lparr>isRead := True, isDelivered := True\<rparr>) (db_messages d)\<rparr>)
            else (SendFile (basename f), files, d))"
  by (simp add: getMedia_def Let_def)

text \<open>
  C5, as claimed: a file is served to U only if U is the sender, the receiver or a group
  member of the message that references it. A file that no message references is served
  to whoever asks: the database is empty, the file \<open>a.png\<close> is on disk, and dave gets it.
\<close>

theorem getMedia_serves_unreferenced_file:
  "getMedia {''a.png''} empty_db ''dave'' ''a.png'' 1000 =
     (SendFile ''a.png'', {''a.png''}, empty_db) \<and>
   db_messages empty_db = []"
  by (simp add: getMedia_def findFirst_message_def basename_def Let_def example_defs)

text \<open>
  C5, amended. A message references a file when the last path segment of its \<open>mediaUrl\<close>
  is the file's name. Take a request whose file name is contained in the \<open>mediaUrl\<close> of
  no message other than those that reference the file. When \<open>getMedia\<close> sends a file, it
  is the file named by the last path segment of the request, it exists, and either no
  stored message references it, or a message that references it has the requester as
  sender, as direct receiver or as a member of its group, and a deadline, if any, that
  is not before the time of the request. And a file that exists and that no message
  references is sent to whoever asks, with nothing changed.
\<close>

theorem getMedia_served_only_if:
  assumes "\<forall>m \<in> set (db_messages d).
             matches_where m (media_where (basename f)) \<longrightarrow> references_file m (basename f)"
  shows "(fst (getMedia files d u f now) = SendFile x \<longrightarrow>
            x = basename f \<and> x \<in> files \<and>
            ((\<forall>m \<in> set (db_messages d). \<not> references_file m x) \<or>
             (\<exists>m \<in> set (db_messages d). references_file m x \<and>
                (senderId m = u \<or> receiverId m = Some u \<or> in_group_of d m u) \<and>
                (case expiresAt m of None \<Rightarrow> True | Some t \<Rightarrow> now \<le> t)))) \<and>
         (basename f \<in> files \<and> (\<forall>m \<in> set (db_messages d). \<not> references_file m (basename f)) \<longrightarrow>
            getMedia files d u f now = (SendFile (basename f), files, d))"
proof (intro conjI impI)
  let ?x = "basename f"
  assume s: "fst (getMedia files d u f now) = SendFile x"
  then have x: "x = ?x" and ex: "?x \<in> files"
    by (auto simp: getMedia_cases split: if_splits option.splits)
  from x show "x = basename f" .
  from x ex show "x \<in> files" by simp
  show "(\<forall>m \<in> set (db_messages d). \<not> references_file m x) \<or>
        (\<exists>m \<in> set (db_messages d). references_file m x \<and>
           (senderId m = u \<or> receiverId m = Some u \<or> in_group_of d m u) \<and>
           (case expiresAt m of None \<Rightarrow> True | Some t \<Rightarrow> now \<le> t))"
  proof (cases "findFirst_message (media_where ?x) (db_messages d)")
    case None
    then have "\<forall>m \<in> set (db_messages d). \<not> matches_where m (media_where ?x)"
      by (simp add: findFirst_message_def find_None_iff)
    with references_file_matches x show ?thesis by blast
  next
    case (Some m)
    then have m: "m \<in> set (db_messages d)" "matches_where m (media_where ?x)"
      by (auto simp: findFirst_message_def find_Some_iff in_set_conv_nth)
    with assms have r: "references_file m ?x" by blast
    from Some s ex have "hasAccess d m u"
      and "\<not> (case expiresAt m of None \<Rightarrow> False | Some t \<Rightarrow> t < now)"
      by (auto simp: getMedia_cases split: if_splits)
    then have "(senderId m = u \<or> receiverId m = Some u \<or> in_group_of d m u) \<and>
               (case expiresAt m of None \<Rightarrow> True | Some t \<Rightarrow> now \<le> t)"
      by (auto simp: hasAccess_def split: if_splits option.splits)
    with m(1) r x show ?thesis by blast
  qed
next
  let ?x = "basename f"
  assume a: "?x \<in> files \<and> (\<forall>m \<in> set (db_messages d). \<not> references_file m ?x)"
  with assms have "\<forall>m \<in> set (db_messages d). \<not> matches_where m (media_where ?x)" by blast
  then have "findFirst_message (media_where ?x) (db_messages d) = None"
    by (simp add: findFirst_message_def find_None_iff)
  with a show "getMedia files d u f now = (SendFile ?x, files, d)"
    by (simp add: getMedia_cases)
qed

text \<open>
  At time 400 the photo alice sent to bob has not reached its deadline (500): bob's
  request is served, and the photo references the file, has him as receiver and is not
  expired. The file \<open>b.png\<close>, which no message references, is sent to dave.
\<close>

theorem getMedia_served_only_if_witness:
  "fst (getMedia {''a.png'', ''b.png''} (empty_db\<lparr>db_messages := [photo_to_bob]\<rparr>)
          ''bob'' ''/media/a.png'' 400) = SendFile ''a.png'' \<and>
   ''a.png'' = basename ''/media/a.png'' \<and>
   references_file photo_to_bob ''a.png'' \<and>
   receiverId photo_to_bob = Some ''bob'' \<and> expiresAt photo_to_bob = Some 500 \<and>
   getMedia {''a.png'', ''b.png''} (empty_db\<lparr>db_messages := [photo_to_bob]\<rparr>)
     ''dave'' ''b.png'' 400 =
     (SendFile ''b.png'', {''a.png'', ''b.png''}, empty_db\<lparr>db_messages := [photo_to_bob]\<rparr>)"
proof -
  let ?d = "empty_db\<lparr>db_messages := [photo_to_bob]\<rparr>"
  let ?files = "{''a.png'', ''b.png''}"
  have msgs: "db_messages ?d = [photo_to_bob]" by (simp add: example_defs)
  have ba: "basename ''/media/a.png'' = ''a.png''" and bb: "basename ''b.png'' = ''b.png''"
    by (simp_all add: basename_def)
  have ra: "references_file photo_to_bob ''a.png''"
    and rb: "\<not> references_file photo_to_bob ''b.png''"
    and mb: "\<not> matches_where photo_to_bob (media_where ''b.png'')"
    by (simp_all add: references_file_def matches_media_where basename_def example_defs)
  have cols: "receiverId photo_to_bob = Some ''bob''" "expiresAt photo_to_bob = Some 500"
    by (simp_all add: example_defs)
  have f: "findFirst_message (media_where ''a.png'') (db_messages ?d) = Some photo_to_bob"
    by (simp add: msgs findFirst_message_def references_file_matches [OF ra])
  have h: "fst (getMedia ?files ?d ''bob'' ''/media/a.png'' 400) = SendFile ''a.png''"
    unfolding getMedia_cases ba f by (simp add: hasAccess_def cols example_defs)
  have ha: "\<forall>m \<in> set (db_messages ?d).
              matches_where m (media_where (basename ''/media/a.png'')) \<longrightarrow>
              references_file m (basename ''/media/a.png'')"
    by (simp add: msgs ba ra)
  have hb: "\<forall>m \<in> set (db_messages ?d).
              matches_where m (media_where (basename ''b.png'')) \<longrightarrow>
              references_file m (basename ''b.png'')"
    by (simp add: msgs bb mb)
  from getMedia_served_only_if [OF ha, of ?files "''bob''" 400 "''a.png''"] h
  have 1: "''a.png'' = basename ''/media/a.png''" by blast
  from getMedia_served_only_if [OF hb, of ?files "''dave''" 400] rb
  have 2: "getMedia ?files ?d ''dave'' ''b.png'' 400 = (SendFile ''b.png'', ?files, ?d)"
    by (simp add: msgs bb)
  from h 1 ra cols 2 show ?thesis by blast
qed

section \<open>Delivered and read flags (C6)\<close>

lemma updateMany_marks_delivered:
  assumes "m \<in> set (updateMany_message (mark_delivered_where u v)
                       (\<lambda>m. m\<lparr>isDelivered := True\<rparr>) ms)"
    and "senderId m = v" and "receiverId m = Some u"
  shows "isDelivered m"
proof -
  from assms(1) obtain m0 where m0: "m0 \<in> set ms"
    and m: "m = (if matches_where m0 (mark_delivered_where u v)
                 then m0\<lparr>isDelivered := True\<rparr> else m0)"
    unfolding updateMany_message_def by auto
  show ?thesis
  proof (cases "matches_where m0 (mark_delivered_where u v)")
    case True
    with m show ?thesis by simp
  next
    case False
    with m have "m = m0" by simp
    with False assms(2,3) show ?thesis by (simp add: matches_mark_delivered_where)
  qed
qed

lemma updateMany_isRead:
  "map isRead (updateMany_message w (\<lambda>m. m\<lparr>isDelivered := True\<rparr>) ms) = map isRead ms"
  by (induction ms) (simp_all add: updateMany_message_def)

lemma update_message_hits:
  assumes "m0 \<in> set ms" and "id_message m0 = i"
  shows "upd m0 \<in> set (update_message i upd ms)"
  using assms unfolding update_message_def by (induction ms) auto

lemma update_message_read:
  assumes "m \<in> set (update_message i (\<lambda>m. m\<lparr>isRead := True, isDelivered := True\<rparr>) ms)"
    and "id_message m = i"
  shows "isRead m \<and> isDelivered m"
proof -
  from assms(1) obtain m0 where "m0 \<in> set ms"
    and m: "m = (if id_message m0 = i then m0\<lparr>isRead := True, isDelivered := True\<rparr> else m0)"
    unfolding update_message_def by auto
  with assms(2) show ?thesis by (cases "id_message m0 = i") simp_all
qed

lemma db_messages_after_fetch:
  "db_messages (snd (getMessagesByUser d u v now)) =
     updateMany_message (mark_delivered_where u v) (\<lambda>m. m\<lparr>isDelivered := True\<rparr>)
       (db_messages d)"
  by (simp add: getMessagesByUser_def Let_def)

lemma markMessageRead_Inr:
  assumes "markMessageRead d i r = Inr d'"
  shows "\<exists>m0. findUnique_message i (db_messages d) = Some m0 \<and> canMarkAsRead d m0 r \<and>
           d' = d\<lparr>db_messages :=
                   update_message i (\<lambda>m. m\<lparr>isRead := True, isDelivered := True\<rparr>)
                     (db_messages d)\<rparr>"
proof (cases "findUnique_message i (db_messages d)")
  case None
  with assms show ?thesis by (simp add: markMessageRead_def)
next
  case (Some m0)
  with assms show ?thesis
    by (cases "canMarkAsRead d m0 r") (simp_all add: markMessageRead_def)
qed

text \<open>
  C6, as claimed: a fetch by the receiver marks each fetched message Delivered and Read.
  The fetch sets \<open>isDelivered\<close> only. Bob's message to alice is stored unread and
  undelivered; alice fetches her conversation with bob at time 1000: the message is
  returned, and it is then delivered and still unread.
\<close>

theorem getMessagesByUser_leaves_isRead:
  "map id_message
     (fst (getMessagesByUser (empty_db\<lparr>db_messages := [bob_to_alice]\<rparr>) ''alice'' ''bob'' 1000))
     = [''m2''] \<and>
   db_messages
     (snd (getMessagesByUser (empty_db\<lparr>db_messages := [bob_to_alice]\<rparr>) ''alice'' ''bob'' 1000))
     = [bob_to_alice\<lparr>isDelivered := True\<rparr>] \<and>
   isRead (bob_to_alice\<lparr>isDelivered := True\<rparr>) = False"
  by (simp add: getMessagesByUser_def findMany_message_def matches_getMessagesByUser_where
      updateMany_message_def matches_mark_delivered_where include_reactions_def
      message.defs message_with_reactions.defs Let_def example_defs)

text \<open>
  C6, amended. After U has fetched the conversation with V, every stored message sent by
  V to U is marked Delivered, and the fetch changes no message's Read flag. An accepted
  read acknowledgment (\<open>markMessageRead\<close>) leaves the acknowledged message marked both Read
  and Delivered.
\<close>

theorem fetch_marks_delivered_ack_marks_both:
  "(\<forall>m \<in> set (db_messages (snd (getMessagesByUser d u v now))).
       senderId m = v \<and> receiverId m = Some u \<longrightarrow> isDelivered m) \<and>
   map isRead (db_messages (snd (getMessagesByUser d u v now))) = map isRead (db_messages d) \<and>
   (markMessageRead d i r = Inr d' \<longrightarrow>
      (\<exists>m \<in> set (db_messages d'). id_message m = i) \<and>
      (\<forall>m \<in> set (db_messages d'). id_message m = i \<longrightarrow> isRead m \<and> isDelivered m))"
proof (intro conjI ballI impI)
  fix m assume "m \<in> set (db_messages (snd (getMessagesByUser d u v now)))"
    and "senderId m = v \<and> receiverId m = Some u"
  then show "isDelivered m"
    using updateMany_marks_delivered [of m u v "db_messages d"]
    by (simp add: db_messages_after_fetch)
next
  show "map isRead (db_messages (snd (getMessagesByUser d u v now))) = map isRead (db_messages d)"
    by (simp add: db_messages_after_fetch updateMany_isRead)
next
  assume a: "markMessageRead d i r = Inr d'"
  from markMessageRead_Inr [OF a] obtain m0 where
    f: "findUnique_message i (db_messages d) = Some m0"
    and d': "db_messages d' =
       update_message i (\<lambda>m. m\<lparr>isRead := True, isDelivered := True\<rparr>) (db_messages d)"
    by auto
  from f have m0: "m0 \<in> set (db_messages d)" "id_message m0 = i"
    by (auto simp: findUnique_message_def find_Some_iff)
  from update_message_hits [OF m0, of "\<lambda>m. m\<lparr>isRead := True, isDelivered := True\<rparr>"] m0(2)
  show "\<exists>m \<in> set (db_messages d'). id_message m = i"
    unfolding d' by (intro bexI [of _ "m0\<lparr>isRead := True, isDelivered := True\<rparr>"]) simp_all
next
  fix m
  assume a: "markMessageRead d i r = Inr d'"
    and m: "m \<in> set (db_messages d')" and i: "id_message m = i"
  from markMessageRead_Inr [OF a] have d': "db_messages d' =
       update_message i (\<lambda>m. m\<lparr>isRead := True, isDelivered := True\<rparr>) (db_messages d)"
    by auto
  from update_message_read [of m i "db_messages d"] m i show "isRead m" by (simp add: d')
  from update_message_read [of m i "db_messages d"] m i show "isDelivered m" by (simp add: d')
qed

text \<open>
  Alice fetches the conversation with bob, then acknowledges message \<open>m2\<close>: the fetch
  leaves it delivered and unread, the acknowledgment leaves it delivered and read.
\<close>

theorem fetch_marks_delivered_ack_marks_both_witness:
  "db_messages
     (snd (getMessagesByUser (empty_db\<lparr>db_messages := [bob_to_alice]\<rparr>) ''alice'' ''bob'' 1000))
     = [bob_to_alice\<lparr>isDelivered := True\<rparr>] \<and>
   senderId (bob_to_alice\<lparr>isDelivered := True\<rparr>) = ''bob'' \<and>
   receiverId (bob_to_alice\<lparr>isDelivered := True\<rparr>) = Some ''alice'' \<and>
   isDelivered (bob_to_alice\<lparr>isDelivered := True\<rparr>) \<and>
   markMessageRead (empty_db\<lparr>db_messages := [bob_to_alice]\<rparr>) ''m2'' ''alice'' =
     Inr (empty_db\<lparr>db_messages := [bob_to_alice\<lparr>isRead := True, isDelivered := True\<rparr>]\<rparr>) \<and>
   id_message (bob_to_alice\<lparr>isRead := True, isDelivered := True\<rparr>) = ''m2'' \<and>
   isRead (bob_to_alice\<lparr>isRead := True, isDelivered := True\<rparr>) \<and>
   isDelivered (bob_to_alice\<lparr>isRead := True, isDelivered := True\<rparr>)"
proof -
  let ?d = "empty_db\<lparr>db_messages := [bob_to_alice]\<rparr>"
  let ?d' = "empty_db\<lparr>db_messages := [bob_to_alice\<lparr>isRead := True, isDelivered := True\<rparr>]\<rparr>"
  have f: "db_messages (snd (getMessagesByUser ?d ''alice'' ''bob'' 1000))
             = [bob_to_alice\<lparr>isDelivered := True\<rparr>]"
    by (simp add: db_messages_after_fetch updateMany_message_def matches_mark_delivered_where
        example_defs)
  have a: "markMessageRead ?d ''m2'' ''alice'' = Inr ?d'"
    by (simp add: markMessageRead_def findUnique_message_def canMarkAsRead_def
        update_message_def example_defs)
  from fetch_marks_delivered_ack_marks_both [of ?d "''alice''" "''bob''" 1000 "''m2''" "''alice''" ?d']
  have "(\<forall>m \<in> set (db_messages (snd (getMessagesByUser ?d ''alice'' ''bob'' 1000))).
           senderId m = ''bob'' \<and> receiverId m = Some ''alice'' \<longrightarrow> isDelivered m) \<and>
        (markMessageRead ?d ''m2'' ''alice'' = Inr ?d' \<longrightarrow>
           (\<forall>m \<in> set (db_messages ?d'). id_message m = ''m2'' \<longrightarrow> isRead m \<and> isDelivered m))"
    by blast
  with f a show ?thesis by (simp add: example_defs)
qed

section \<open>Hidden nicknames (C7)\<close>

lemma id_membersWithNicknames: "id_member (membersWithNicknames ns g mem) = id_member mem"
  by (simp add: membersWithNicknames_def split: option.splits)

lemma hidden_membersWithNicknames:
  assumes "find (\<lambda>n. userId_nickname n = id_member mem \<and> groupId_nickname n = g) ns = Some n"
  shows "isVisible_member (membersWithNicknames ns g mem) = Some (isVisible n) \<and>
         nickname_member (membersWithNicknames ns g mem) = Some (nickname n)"
  using assms by (simp add: membersWithNicknames_def)

lemma getGroupDetails_Inr:
  assumes "getGroupDetails d u g now = Inr r"
  shows "\<exists>grp. findUnique_group g (db_groups d) = Some grp \<and> u \<in> set (memberIds grp) \<and>
           members_details r = visibleMembers d grp u g"
proof (cases "findUnique_group g (db_groups d)")
  case None
  with assms show ?thesis by (simp add: getGroupDetails_def)
next
  case (Some grp)
  show ?thesis
  proof (cases "findUnique_user (adminId grp) (db_users d)")
    case None
    with Some assms show ?thesis by (simp add: getGroupDetails_def)
  next
    case (Some admin)
    with \<open>findUnique_group g (db_groups d) = Some grp\<close> assms show ?thesis
      by (cases "u \<in> set (memberIds grp)") (auto simp: getGroupDetails_def)
  qed
qed

lemma hidden_member_left_out:
  assumes "u \<noteq> adminId grp" and "x \<noteq> adminId grp" and "x \<noteq> u"
    and "find (\<lambda>n. userId_nickname n = x \<and> groupId_nickname n = g) (memberNicknames d grp)
           = Some n"
    and "\<not> isVisible n"
  shows "x \<notin> id_member ` set (visibleMembers d grp u g)"
proof
  assume "x \<in> id_member ` set (visibleMembers d grp u g)"
  then obtain e where e: "e \<in> set (visibleMembers d grp u g)" and x: "id_member e = x" by auto
  from e assms(1) obtain mem where
    em: "e = membersWithNicknames (memberNicknames d grp) g mem" and vis: "visible_to grp u e"
    by (auto simp: visibleMembers_def Let_def)
  from em x have "id_member mem = x" by (simp add: id_membersWithNicknames)
  with assms(4) have "isVisible_member e = Some (isVisible n)"
    using hidden_membersWithNicknames [of mem g "memberNicknames d grp" n] em by simp
  with vis x assms show False by (simp add: visible_to_def)
qed

text \<open>The callback of the group messages does no lookup for an anonymous message.\<close>

lemma anonymous_without_lookup:
  "isAnonymous v \<Longrightarrow> messagesWithNicknames ns g v = v\<lparr>sender := anonymous_sender\<rparr>"
  by (simp add: messagesWithNicknames_def)

lemma own_and_admin_entries_kept:
  assumes "e \<in> set (map (membersWithNicknames (memberNicknames d grp) g) (members d grp))"
    and "id_member e = u \<or> id_member e = adminId grp"
  shows "e \<in> set (visibleMembers d grp u g)"
  using assms by (auto simp: visibleMembers_def Let_def visible_to_def)

text \<open>
  C7, as claimed: a hidden alias is returned only to the group admin and to the aliased
  user. In the group details the admin's own entry passes the filter whatever its flag:
  alice, admin of \<open>g1\<close>, has the hidden alias \<open>Boss\<close>, carol has the hidden alias \<open>Shadow\<close>,
  and bob asks for the details. Carol's entry is left out; alice's entry is returned with
  her id, her alias and the flag.
\<close>

theorem getGroupDetails_shows_hidden_admin_alias:
  "(case getGroupDetails nickname_db ''bob'' ''g1'' 1000 of
      Inl e \<Rightarrow> False
    | Inr r \<Rightarrow>
        map (\<lambda>e. (id_member e, nickname_member e, isVisible_member e)) (members_details r) =
          [(''alice'', Some ''Boss'', Some False), (''bob'', None, None)])"
  by (simp add: getGroupDetails_def findUnique_group_def findUnique_user_def
      visibleMembers_def members_def memberNicknames_def membersWithNicknames_def
      select_member_def visible_to_def Let_def example_defs)

text \<open>
  C7, amended. Group details, for a reader \<open>u\<close> of group \<open>grp\<close>: the admin receives every
  member's entry, alias and flag included; every reader receives their own entry and the
  admin's entry as mapped (alias and flag included, even when hidden); a reader who is
  not the admin receives no entry at all, so neither identity nor alias, for any other
  member \<open>x\<close>, not the admin, whose nickname in the group is hidden. Group messages: no
  request is answered with message objects, so no alias reaches any reader by that path;
  and the mapping written for its messages gives an anonymous message the fixed sentinel
  as \<open>sender\<close> and leaves the rest as it is, whatever the nickname rows are.
\<close>

theorem hidden_nickname_visibility:
  "(getGroupDetails d u g now = Inr r \<and> findUnique_group g (db_groups d) = Some grp \<longrightarrow>
      (u = adminId grp \<longrightarrow>
         members_details r =
           map (membersWithNicknames (memberNicknames d grp) g) (members d grp)) \<and>
      (\<forall>e \<in> set (map (membersWithNicknames (memberNicknames d grp) g) (members d grp)).
         id_member e = u \<or> id_member e = adminId grp \<longrightarrow> e \<in> set (members_details r)) \<and>
      (u \<noteq> adminId grp \<and> x \<noteq> adminId grp \<and> x \<noteq> u \<and>
       find (\<lambda>n. userId_nickname n = x \<and> groupId_nickname n = g) (memberNicknames d grp)
         = Some n \<and> \<not> isVisible n \<longrightarrow>
         x \<notin> id_member ` set (members_details r))) \<and>
   (\<forall>ms. getGroupMessages d u g now \<noteq> Inr ms) \<and>
   (isAnonymous v \<longrightarrow> messagesWithNicknames ns g v = v\<lparr>sender := anonymous_sender\<rparr>)"
proof (intro conjI impI ballI allI)
  assume a: "getGroupDetails d u g now = Inr r \<and> findUnique_group g (db_groups d) = Some grp"
    and "u = adminId grp"
  with getGroupDetails_Inr [of d u g now r]
  show "members_details r =
          map (membersWithNicknames (memberNicknames d grp) g) (members d grp)"
    by (auto simp: visibleMembers_def Let_def)
next
  fix e
  assume a: "getGroupDetails d u g now = Inr r \<and> findUnique_group g (db_groups d) = Some grp"
    and e: "e \<in> set (map (membersWithNicknames (memberNicknames d grp) g) (members d grp))"
    and i: "id_member e = u \<or> id_member e = adminId grp"
  from a getGroupDetails_Inr [of d u g now r]
  have "members_details r = visibleMembers d grp u g" by auto
  with own_and_admin_entries_kept [OF e i] show "e \<in> set (members_details r)" by simp
next
  assume a: "getGroupDetails d u g now = Inr r \<and> findUnique_group g (db_groups d) = Some grp"
    and h: "u \<noteq> adminId grp \<and> x \<noteq> adminId grp \<and> x \<noteq> u \<and>
       find (\<lambda>n. userId_nickname n = x \<and> groupId_nickname n = g) (memberNicknames d grp)
         = Some n \<and> \<not> isVisible n"
  from a getGroupDetails_Inr [of d u g now r]
  have "members_details r = visibleMembers d grp u g" by auto
  with hidden_member_left_out [of u grp x g d n] h
  show "x \<notin> id_member ` set (members_details r)" by simp
next
  fix ms
  show "getGroupMessages d u g now \<noteq> Inr ms"
    by (simp add: getGroupMessages_cases split: option.splits)
next
  assume "isAnonymous v"
  then show "messagesWithNicknames ns g v = v\<lparr>sender := anonymous_sender\<rparr>"
    by (rule anonymous_without_lookup)
qed

text \<open>
  In \<open>nickname_db\<close> bob's details leave carol out, alice's details (she is the admin) hold
  all three entries, and carol's details hold her own entry with her alias. Bob's request
  for the group's messages is answered 500. The mapping gives alice's anonymous message
  the sentinel although she has a nickname row.
\<close>

theorem hidden_nickname_visibility_witness:
  "findUnique_group ''g1'' (db_groups nickname_db) = Some g1 \<and>
   find (\<lambda>n. userId_nickname n = ''carol'' \<and> groupId_nickname n = ''g1'')
     (memberNicknames nickname_db g1) = Some carol_nickname \<and>
   \<not> isVisible carol_nickname \<and>
   getGroupDetails nickname_db ''bob'' ''g1'' 1000 =
     Inr (projr (getGroupDetails nickname_db ''bob'' ''g1'' 1000)) \<and>
   ''carol'' \<notin> id_member `
     set (members_details (projr (getGroupDetails nickname_db ''bob'' ''g1'' 1000))) \<and>
   getGroupDetails nickname_db ''alice'' ''g1'' 1000 =
     Inr (projr (getGroupDetails nickname_db ''alice'' ''g1'' 1000)) \<and>
   map id_member (members_details (projr (getGroupDetails nickname_db ''alice'' ''g1'' 1000)))
     = [''alice'', ''bob'', ''carol''] \<and>
   getGroupDetails nickname_db ''carol'' ''g1'' 1000 =
     Inr (projr (getGroupDetails nickname_db ''carol'' ''g1'' 1000)) \<and>
   membersWithNicknames (memberNicknames nickname_db g1) ''g1'' (select_member (user_named ''carol''))
     \<in> set (members_details (projr (getGroupDetails nickname_db ''carol'' ''g1'' 1000))) \<and>
   getGroupMessages nickname_db ''bob'' ''g1'' 1000 =
     Inl (HttpError 500 ''Server error retrieving group messages'') \<and>
   isAnonymous anonymous_object \<and> senderId anonymous_object = ''alice'' \<and>
   messagesWithNicknames (memberNicknames nickname_db g1) ''g1'' anonymous_object =
     anonymous_object\<lparr>sender := anonymous_sender\<rparr>"
proof -
  let ?rb = "projr (getGroupDetails nickname_db ''bob'' ''g1'' 1000)"
  let ?ra = "projr (getGroupDetails nickname_db ''alice'' ''g1'' 1000)"
  let ?rc = "projr (getGroupDetails nickname_db ''carol'' ''g1'' 1000)"
  let ?all = "map (membersWithNicknames (memberNicknames nickname_db g1) ''g1'')
                (members nickname_db g1)"
  let ?carol = "membersWithNicknames (memberNicknames nickname_db g1) ''g1''
                  (select_member (user_named ''carol''))"
  have grp: "findUnique_group ''g1'' (db_groups nickname_db) = Some g1"
    by (simp add: findUnique_group_def example_defs)
  have adm: "findUnique_user ''alice'' (db_users nickname_db) = Some (user_named ''alice'')"
    by (simp add: findUnique_user_def example_defs)
  have mem: "memberIds g1 = [''alice'', ''bob'', ''carol'']" "adminId g1 = ''alice''"
    by (simp_all add: example_defs)
  have nick: "find (\<lambda>n. userId_nickname n = ''carol'' \<and> groupId_nickname n = ''g1'')
     (memberNicknames nickname_db g1) = Some carol_nickname"
    by (simp add: memberNicknames_def example_defs)
  have hid: "\<not> isVisible carol_nickname" by (simp add: example_defs)
  have b: "getGroupDetails nickname_db ''bob'' ''g1'' 1000 = Inr ?rb"
    by (simp add: getGroupDetails_def grp adm mem)
  have a: "getGroupDetails nickname_db ''alice'' ''g1'' 1000 = Inr ?ra"
    by (simp add: getGroupDetails_def grp adm mem)
  have c: "getGroupDetails nickname_db ''carol'' ''g1'' 1000 = Inr ?rc"
    by (simp add: getGroupDetails_def grp adm mem)
  have ids: "map id_member ?all = [''alice'', ''bob'', ''carol'']"
    by (simp add: id_membersWithNicknames comp_def members_def select_member_def
        example_defs)
  have cin: "?carol \<in> set ?all"
    by (simp add: members_def example_defs)
  have cid: "id_member ?carol = ''carol''"
    by (simp add: id_membersWithNicknames select_member_def example_defs)
  have m: "getGroupMessages nickname_db ''bob'' ''g1'' 1000 =
             Inl (HttpError 500 ''Server error retrieving group messages'')"
    by (simp add: getGroupMessages_cases grp mem)
  have an: "isAnonymous anonymous_object" and sid: "senderId anonymous_object = ''alice''"
    by (simp_all add: message.defs message_with_sender.defs example_defs)
  from hidden_nickname_visibility
         [where d = nickname_db and u = "''bob''" and g = "''g1''" and now = 1000 and r = ?rb
            and grp = g1 and x = "''carol''" and n = carol_nickname
            and v = anonymous_object and ns = "memberNicknames nickname_db g1"]
       b grp nick hid mem an
  have 1: "''carol'' \<notin> id_member ` set (members_details ?rb)"
    and 2: "messagesWithNicknames (memberNicknames nickname_db g1) ''g1'' anonymous_object =
              anonymous_object\<lparr>sender := anonymous_sender\<rparr>"
    by simp_all
  from hidden_nickname_visibility
         [where d = nickname_db and u = "''alice''" and g = "''g1''" and now = 1000 and r = ?ra
            and grp = g1] a grp mem
  have 3: "members_details ?ra = ?all" by simp
  from hidden_nickname_visibility
         [where d = nickname_db and u = "''carol''" and g = "''g1''" and now = 1000 and r = ?rc
            and grp = g1] c grp cin cid
  have 4: "?carol \<in> set (members_details ?rc)" by blast
  from grp nick hid b 1 a 3 ids c 4 m an sid 2 show ?thesis by simp
qed

section \<open>Facts about the UTF-8 conversion\<close>

text \<open>
  Encoding a string with no unpaired surrogate and decoding the bytes gives the string
  back. The lemmas follow the encoder through the four lengths of a sequence.
\<close>

lemma utf8_of_byte: "scalar cp \<Longrightarrow> b \<in> set (utf8_of cp) \<Longrightarrow> b < 256"
  unfolding scalar_def utf8_of_def by (auto split: if_splits)

lemma two_bytes:
  "2 \<le> a \<Longrightarrow> a < 32 \<Longrightarrow> b < 64 \<Longrightarrow>
   scalar_values ((0xC0 + a) # (0x80 + b) # bs) = (a * 0x40 + b) # scalar_values bs"
  by (simp add: decode_sequence_def continuation_def)

lemma three_bytes:
  "a < 16 \<Longrightarrow> b < 64 \<Longrightarrow> c < 64 \<Longrightarrow> 0x800 \<le> a * 0x1000 + b * 0x40 + c \<Longrightarrow>
   \<not> (0xD800 \<le> a * 0x1000 + b * 0x40 + c \<and> a * 0x1000 + b * 0x40 + c \<le> 0xDFFF) \<Longrightarrow>
   scalar_values ((0xE0 + a) # (0x80 + b) # (0x80 + c) # bs) =
     (a * 0x1000 + b * 0x40 + c) # scalar_values bs"
  by (simp add: decode_sequence_def continuation_def Let_def)

lemma four_bytes:
  "a < 5 \<Longrightarrow> b < 64 \<Longrightarrow> c < 64 \<Longrightarrow> e < 64 \<Longrightarrow>
   0x10000 \<le> a * 0x40000 + b * 0x1000 + c * 0x40 + e \<Longrightarrow>
   a * 0x40000 + b * 0x1000 + c * 0x40 + e < 0x110000 \<Longrightarrow>
   scalar_values ((0xF0 + a) # (0x80 + b) # (0x80 + c) # (0x80 + e) # bs) =
     (a * 0x40000 + b * 0x1000 + c * 0x40 + e) # scalar_values bs"
  by (simp add: decode_sequence_def continuation_def Let_def)

lemma split3: "cp div 0x1000 * 0x1000 + cp div 0x40 mod 0x40 * 0x40 + cp mod 0x40 = (cp::nat)"
proof -
  have a: "cp div 0x1000 = cp div 0x40 div 0x40"
    by (simp add: div_mult2_eq [symmetric])
  have "cp div 0x40 div 0x40 * 0x40 + cp div 0x40 mod 0x40 = cp div 0x40" by simp
  then have "cp div 0x40 div 0x40 * 0x1000 + cp div 0x40 mod 0x40 * 0x40 = cp div 0x40 * 0x40"
    by linarith
  moreover have "cp div 0x40 * 0x40 + cp mod 0x40 = cp" by simp
  ultimately show ?thesis unfolding a by linarith
qed

lemma split4:
  "cp div 0x40000 * 0x40000 + cp div 0x1000 mod 0x40 * 0x1000
     + cp div 0x40 mod 0x40 * 0x40 + cp mod 0x40 = (cp::nat)"
proof -
  have a: "cp div 0x40000 = cp div 0x1000 div 0x40"
    by (simp add: div_mult2_eq [symmetric])
  have "cp div 0x1000 div 0x40 * 0x40 + cp div 0x1000 mod 0x40 = cp div 0x1000" by simp
  then have "cp div 0x1000 div 0x40 * 0x40000 + cp div 0x1000 mod 0x40 * 0x1000
               = cp div 0x1000 * 0x1000"
    by linarith
  with split3 [of cp] show ?thesis unfolding a by linarith
qed

lemma pair_div:
  assumes "b < (0x400::nat)"
  shows "(a * 0x400 + b) div 0x400 = a" "(a * 0x400 + b) mod 0x400 = b"
  using assms by simp_all

lemma utf8_of_1: "cp < 0x80 \<Longrightarrow> utf8_of cp = [cp]"
  by (simp add: utf8_of_def)

lemma utf8_of_2:
  "0x80 \<le> cp \<Longrightarrow> cp < 0x800 \<Longrightarrow> utf8_of cp = [0xC0 + cp div 0x40, 0x80 + cp mod 0x40]"
  by (simp add: utf8_of_def)

lemma utf8_of_3:
  "0x800 \<le> cp \<Longrightarrow> cp < 0x10000 \<Longrightarrow>
   utf8_of cp = [0xE0 + cp div 0x1000, 0x80 + cp div 0x40 mod 0x40, 0x80 + cp mod 0x40]"
  by (simp add: utf8_of_def)

lemma utf8_of_4:
  "0x10000 \<le> cp \<Longrightarrow>
   utf8_of cp = [0xF0 + cp div 0x40000, 0x80 + cp div 0x1000 mod 0x40,
                 0x80 + cp div 0x40 mod 0x40, 0x80 + cp mod 0x40]"
  by (simp add: utf8_of_def)

lemma scalar_values_utf8_of:
  assumes "scalar cp"
  shows "scalar_values (utf8_of cp @ bs) = cp # scalar_values bs"
proof -
  consider "cp < 0x80" | "0x80 \<le> cp" "cp < 0x800" | "0x800 \<le> cp" "cp < 0x10000"
    | "0x10000 \<le> cp" by linarith
  then show ?thesis
  proof cases
    case 1
    then show ?thesis by (simp add: utf8_of_1)
  next
    case 2
    then have a: "2 \<le> cp div 0x40" "cp div 0x40 < 32" by linarith+
    have b: "cp mod 0x40 < 64" by simp
    have "cp div 0x40 * 0x40 + cp mod 0x40 = cp" by simp
    with two_bytes [OF a b, of bs] show ?thesis
      by (simp only: utf8_of_2 [OF 2] append_Cons append_Nil)
  next
    case 3
    then have a: "cp div 0x1000 < 16" by linarith
    have b: "cp div 0x40 mod 0x40 < 64" "cp mod 0x40 < 64" by simp_all
    from 3 assms have c:
      "0x800 \<le> cp div 0x1000 * 0x1000 + cp div 0x40 mod 0x40 * 0x40 + cp mod 0x40"
      "\<not> (0xD800 \<le> cp div 0x1000 * 0x1000 + cp div 0x40 mod 0x40 * 0x40 + cp mod 0x40 \<and>
          cp div 0x1000 * 0x1000 + cp div 0x40 mod 0x40 * 0x40 + cp mod 0x40 \<le> 0xDFFF)"
      by (simp_all only: split3 scalar_def) simp_all
    from three_bytes [OF a b c, of bs] show ?thesis
      by (simp only: utf8_of_3 [OF 3] append_Cons append_Nil split3)
  next
    case 4
    with assms have a: "cp div 0x40000 < 5" unfolding scalar_def by linarith
    have b: "cp div 0x1000 mod 0x40 < 64" "cp div 0x40 mod 0x40 < 64" "cp mod 0x40 < 64"
      by simp_all
    from 4 assms have c:
      "0x10000 \<le> cp div 0x40000 * 0x40000 + cp div 0x1000 mod 0x40 * 0x1000
         + cp div 0x40 mod 0x40 * 0x40 + cp mod 0x40"
      "cp div 0x40000 * 0x40000 + cp div 0x1000 mod 0x40 * 0x1000
         + cp div 0x40 mod 0x40 * 0x40 + cp mod 0x40 < 0x110000"
      by (simp_all only: split4 scalar_def)
    from four_bytes [OF a b c, of bs] show ?thesis
      by (simp only: utf8_of_4 [OF 4] append_Cons append_Nil split4)
  qed
qed

lemma scalar_values_concat:
  "list_all scalar cps \<Longrightarrow>
   scalar_values (concat (map utf8_of cps) @ bs) = cps @ scalar_values bs"
  by (induction cps) (simp_all add: scalar_values_utf8_of)

lemma utf8_bytes_small:
  "list_all scalar cps \<Longrightarrow> b \<in> set (concat (map utf8_of cps)) \<Longrightarrow> b < 256"
  by (induction cps) (auto dest: utf8_of_byte)

lemma of_char_char_of_bytes:
  "\<forall>b \<in> set bs. b < 256 \<Longrightarrow> map of_char (map char_of bs :: char list) = (bs :: nat list)"
  by (induction bs) simp_all

lemma well_formed_code_points:
  "well_formed s \<Longrightarrow>
   list_all scalar (code_points s) \<and> concat (map code_units (code_points s)) = s"
proof (induction s rule: code_points.induct)
  case 1
  then show ?case by simp
next
  case (2 u)
  then have "lone u = u" "scalar u" "code_units u = [u]"
    by (auto simp: lone_def scalar_def code_units_def high_surrogate_def low_surrogate_def)
  then show ?case by simp
next
  case (3 u l rest)
  show ?case
  proof (cases "high_surrogate u")
    case True
    with 3(3) have l: "low_surrogate l" and r: "well_formed rest" by simp_all
    let ?cp = "0x10000 + (u - 0xD800) * 0x400 + (l - 0xDC00)"
    from True l have s: "scalar ?cp"
      unfolding scalar_def high_surrogate_def low_surrogate_def by linarith
    from True l have e: "?cp - 0x10000 = (u - 0xD800) * 0x400 + (l - 0xDC00)"
      and lb: "l - 0xDC00 < 0x400" and ul: "0xD800 + (u - 0xD800) = u" "0xDC00 + (l - 0xDC00) = l"
      and big: "\<not> ?cp < 0x10000"
      unfolding high_surrogate_def low_surrogate_def by linarith+
    from pair_div [OF lb, of "u - 0xD800"] e ul
    have "0xD800 + (?cp - 0x10000) div 0x400 = u" "0xDC00 + (?cp - 0x10000) mod 0x400 = l"
      by (simp_all only:)
    with big have c: "code_units ?cp = [u, l]"
      unfolding code_units_def by (simp only: if_False)
    from 3(1) [OF _ r] True l have
      "list_all scalar (code_points rest) \<and> concat (map code_units (code_points rest)) = rest"
      by simp
    with True l s c show ?thesis by simp
  next
    case False
    with 3(3) have u: "u < 0x10000" "\<not> low_surrogate u" and r: "well_formed (l # rest)"
      by simp_all
    from False u have lu: "lone u = u" "scalar u" "code_units u = [u]"
      by (auto simp: lone_def scalar_def code_units_def high_surrogate_def low_surrogate_def)
    from 3(2) [OF _ r] False have
      "list_all scalar (code_points (l # rest)) \<and>
       concat (map code_units (code_points (l # rest))) = l # rest"
      by simp
    with False lu show ?thesis by simp
  qed
qed

lemma utf8_round_trip:
  assumes "well_formed s"
  shows "utf8_string (utf8_bytes s) = s"
proof -
  let ?bs = "concat (map utf8_of (code_points s))"
  from well_formed_code_points [OF assms]
  have sc: "list_all scalar (code_points s)"
    and cu: "concat (map code_units (code_points s)) = s" by simp_all
  have "map of_char (map char_of ?bs :: char list) = ?bs"
    using utf8_bytes_small [OF sc] by (intro of_char_char_of_bytes) blast
  moreover from scalar_values_concat [OF sc, of "[]"]
  have "scalar_values ?bs = code_points s" by simp
  ultimately show ?thesis by (simp add: utf8_string_def utf8_bytes_def cu)
qed

lemma well_formed_small: "\<forall>u \<in> set s. u < 0xD800 \<Longrightarrow> well_formed s"
  by (induction s rule: well_formed.induct) (simp_all add: high_surrogate_def low_surrogate_def)

section \<open>The envelope: sealing and opening (C8)\<close>

text \<open>
  With such a library, opening a sealed message gives the UTF-8 decoding of its UTF-8
  encoding, for every string.
\<close>

lemma envelope_opens_to_decoded:
  assumes "lawful lib aesKey iv"
  shows "decryptMessage lib (encryptMessage lib iv message aesKey) aesKey =
           Inr (utf8_string (utf8_bytes message))"
proof -
  obtain encrypted authTag where
    e: "aes_gcm_encrypt lib aesKey iv (utf8_bytes message) = (encrypted, authTag)"
    by (cases "aes_gcm_encrypt lib aesKey iv (utf8_bytes message)")
  let ?obj = "\<lparr>iv_envelope = base64 lib iv, authTag_envelope = base64 lib authTag,
               encryptedData_envelope = base64 lib encrypted\<rparr>"
  from assms have b64: "\<And>b. from_base64 lib (base64 lib b) = b"
    and wf: "well_formed (stringify lib ?obj)"
    and json: "parse lib (stringify lib ?obj) = Some ?obj"
    and gcm: "aes_gcm_decrypt lib aesKey iv
                (snd (aes_gcm_encrypt lib aesKey iv (utf8_bytes message)))
                (fst (aes_gcm_encrypt lib aesKey iv (utf8_bytes message)))
              = Some (utf8_bytes message)"
    unfolding lawful_def by blast+
  from gcm e have d: "aes_gcm_decrypt lib aesKey iv authTag encrypted = Some (utf8_bytes message)"
    by simp
  have enc: "encryptMessage lib iv message aesKey = base64 lib (utf8_bytes (stringify lib ?obj))"
    by (simp add: encryptMessage_def e)
  have "parse lib (utf8_string (from_base64 lib (encryptMessage lib iv message aesKey)))
          = Some ?obj"
    by (simp only: enc b64 utf8_round_trip [OF wf] json)
  then show ?thesis
    by (simp add: decryptMessage_def b64 d)
qed

text \<open>The library of the examples is one, for every key and iv.\<close>

lemma toy_library_lawful: "lawful toy_library k iv"
proof -
  have t: "\<And>a rest. takeWhile (\<lambda>u. u \<noteq> 256) (map of_char (a :: char list) @ 256 # rest)
             = (map of_char a :: nat list)"
    by (subst takeWhile_append2) (auto simp: less_imp_neq)
  have dr: "\<And>a rest. dropWhile (\<lambda>u. u \<noteq> 256) (map of_char (a :: char list) @ 256 # rest)
             = (256 :: nat) # rest"
    by (subst dropWhile_append2) (auto simp: less_imp_neq)
  have n: "\<And>c :: char list. takeWhile (\<lambda>u. u \<noteq> 256) (map of_char c) = (map of_char c :: nat list)"
    by (rule takeWhile_eq_all_conv [THEN iffD2]) (auto simp: less_imp_neq)
  have w: "\<And>a b c :: char list. well_formed
             (map of_char a @ 256 # map of_char b @ 256 # map of_char c)"
    by (rule well_formed_small) (auto intro: less_trans [OF nat_of_char_less_256])
  show ?thesis
    unfolding lawful_def
    by (simp add: toy_library_def t dr n w comp_def)
qed

text \<open>
  C8, as claimed: for every plaintext string \<open>p\<close> and key \<open>k\<close>, opening the sealed envelope
  gives \<open>p\<close>. A JavaScript string may hold an unpaired surrogate, and the \<open>'utf8'\<close> input
  encoding of the cipher writes U+FFFD for it: whatever the cipher does, the string of the
  one unit D800 is sealed as the bytes EF BF BD and comes back as the one unit FFFD.
\<close>

theorem envelope_loses_lone_surrogate:
  "map of_char (utf8_bytes [0xD800]) = [0xEF, 0xBF, 0xBD :: nat] \<and>
   decryptMessage toy_library
     (encryptMessage toy_library (replicate 16 (CHR 0x07)) [0xD800] (replicate 32 (CHR 0x2A)))
     (replicate 32 (CHR 0x2A)) = Inr [0xFFFD] \<and>
   [0xFFFD] \<noteq> [0xD800 :: nat]"
proof -
  have b: "map of_char (utf8_bytes [0xD800]) = [0xEF, 0xBF, 0xBD :: nat]"
    by (simp add: utf8_bytes_def lone_def high_surrogate_def utf8_of_def)
  then have "utf8_string (utf8_bytes [0xD800]) = [0xFFFD]"
    by (simp add: utf8_string_def decode_sequence_def continuation_def code_units_def)
  with b envelope_opens_to_decoded [OF toy_library_lawful, where message = "[0xD800]"]
  show ?thesis by simp
qed

text \<open>
  C8, amended. For every plaintext string with no unpaired surrogate, every key and every
  iv, with a library in which base64, JSON on the envelope and AES-GCM under that key and
  iv round-trip: \<open>decryptMessage\<close> returns the plaintext that \<open>encryptMessage\<close> sealed under
  the same key.
\<close>

theorem envelope_round_trip:
  assumes "well_formed message" and "lawful lib aesKey iv"
  shows "decryptMessage lib (encryptMessage lib iv message aesKey) aesKey = Inr message"
  using envelope_opens_to_decoded [OF assms(2)] utf8_round_trip [OF assms(1)] by simp

text \<open>
  Sealed and opened with the example library under a key of 32 bytes: \<open>hi\<close>, and the
  string of the surrogate pair D83D DE00.
\<close>

theorem envelope_round_trip_witness:
  "well_formed [0x68, 0x69] \<and> well_formed [0xD83D, 0xDE00] \<and>
   lawful toy_library (replicate 32 (CHR 0x2A)) (replicate 16 (CHR 0x07)) \<and>
   decryptMessage toy_library
     (encryptMessage toy_library (replicate 16 (CHR 0x07)) [0x68, 0x69] (replicate 32 (CHR 0x2A)))
     (replicate 32 (CHR 0x2A)) = Inr [0x68, 0x69] \<and>
   decryptMessage toy_library
     (encryptMessage toy_library (replicate 16 (CHR 0x07)) [0xD83D, 0xDE00]
        (replicate 32 (CHR 0x2A)))
     (replicate 32 (CHR 0x2A)) = Inr [0xD83D, 0xDE00]"
proof -
  have w1: "well_formed [0x68, 0x69]" and w2: "well_formed [0xD83D, 0xDE00]"
    by (simp_all add: high_surrogate_def low_surrogate_def)
  note l = toy_library_lawful [of "replicate 32 (CHR 0x2A)" "replicate 16 (CHR 0x07)"]
  from envelope_round_trip [OF w1 l] envelope_round_trip [OF w2 l] w1 w2 l
  show ?thesis by blast
qed

section \<open>View-once media, one request after the other\<close>

text \<open>
  A first fetch that is sent through the view-once branch (the message found has a
  deadline and is unread) removes the file from the storage directory and marks the
  message read and delivered; a later fetch of the same name, by anyone and at any time,
  is answered 404. This is the sequential behaviour only: two requests whose steps
  interleave are outside this model.
\<close>

theorem view_once_then_not_found:
  assumes "findFirst_message (media_where (basename f)) (db_messages d) = Some m"
    and "expiresAt m = Some t" and "\<not> isRead m"
    and "getMedia files d u f now = (SendFile x, files', d')"
  shows "files' = files - {x} \<and> x = basename f \<and>
         db_messages d' =
           update_message (id_message m) (\<lambda>m. m\<lparr>isRead := True, isDelivered := True\<rparr>)
             (db_messages d) \<and>
         fst (getMedia files' d' u' f now') = Json 404 ''Media not found''"
proof -
  from assms(1-3) have
    "getMedia files d u f now =
       (if basename f \<notin> files then (Json 404 ''Media not found'', files, d)
        else if \<not> hasAccess d m u
        then (Json 403 ''Not authorized to access this media'', files, d)
        else if t < now then (Json 404 ''Media has expired'', files - {basename f}, d)
        else (SendFile (basename f), files - {basename f},
              d\<lparr>db_messages :=
                  update_message (id_message m)
                    (\<lambda>m. m\<lparr>isRead := True, isDelivered := True\<rparr>) (db_messages d)\<rparr>))"
    by (simp add: getMedia_def Let_def)
  with assms(4) have
    "(SendFile (basename f), files - {basename f},
      d\<lparr>db_messages :=
          update_message (id_message m)
            (\<lambda>m. m\<lparr>isRead := True, isDelivered := True\<rparr>) (db_messages d)\<rparr>)
     = (SendFile x, files', d')"
    by (auto split: if_splits)
  then have x: "x = basename f" and fl: "files' = files - {basename f}"
    and d': "db_messages d' =
           update_message (id_message m) (\<lambda>m. m\<lparr>isRead := True, isDelivered := True\<rparr>)
             (db_messages d)"
    by auto
  from fl have "fst (getMedia files' d' u' f now') = Json 404 ''Media not found''"
    by (simp add: getMedia_def Let_def)
  with x fl d' show ?thesis by simp
qed

text \<open>
  Bob fetches the photo alice sent him at time 400, before its deadline, and asks again
  at time 450.
\<close>

theorem view_once_then_not_found_witness:
  "getMedia {''a.png''} (empty_db\<lparr>db_messages := [photo_to_bob]\<rparr>) ''bob'' ''a.png'' 400 =
     (SendFile ''a.png'', {},
      empty_db\<lparr>db_messages := [photo_to_bob\<lparr>isRead := True, isDelivered := True\<rparr>]\<rparr>) \<and>
   fst (getMedia {}
          (empty_db\<lparr>db_messages := [photo_to_bob\<lparr>isRead := True, isDelivered := True\<rparr>]\<rparr>)
          ''bob'' ''a.png'' 450) = Json 404 ''Media not found''"
proof -
  let ?d = "empty_db\<lparr>db_messages := [photo_to_bob]\<rparr>"
  let ?d' = "empty_db\<lparr>db_messages := [photo_to_bob\<lparr>isRead := True, isDelivered := True\<rparr>]\<rparr>"
  have b: "basename ''a.png'' = ''a.png''" by (simp add: basename_def)
  have f: "findFirst_message (media_where (basename ''a.png'')) (db_messages ?d)
             = Some photo_to_bob"
    unfolding b
    by (simp add: findFirst_message_def media_where_def object_literal_def
        matches_where_def field_holds_def example_defs)
  have e: "expiresAt photo_to_bob = Some 500" "\<not> isRead photo_to_bob"
    by (simp_all add: example_defs)
  have g: "getMedia {''a.png''} ?d ''bob'' ''a.png'' 400 = (SendFile ''a.png'', {}, ?d')"
    unfolding getMedia_def Let_def f [unfolded b] b
    by (simp add: hasAccess_def update_message_def example_defs)
  from view_once_then_not_found [OF f e g, of "''bob''" 450]
  have "fst (getMedia {} ?d' ''bob'' ''a.png'' 450) = Json 404 ''Media not found''"
    by blast
  with g show ?thesis by blast
qed

section \<open>One-time codes: the deadline is stored and never read (C10)\<close>

lemma find_snoc:
  "find P xs = None \<Longrightarrow> find P (xs @ [y]) = (if P y then Some y else None)"
  by (induction xs) (auto split: if_splits)

lemma find_map_update_otp:
  "find (\<lambda>x. userId_otp x = uid)
     (map (\<lambda>x. if userId_otp x = uid then x\<lparr>otp := code, expiresAt_otp := e\<rparr> else x) os)
   = map_option (\<lambda>x. x\<lparr>otp := code, expiresAt_otp := e\<rparr>)
       (find (\<lambda>x. userId_otp x = uid) os)"
  by (induction os) simp_all

lemma find_saveOTP:
  "\<exists>x. findUnique_otp uid (db_otps (saveOTP E d uid code now)) = Some x \<and>
       otp x = code \<and> expiresAt_otp x = now + E * 1000"
proof (cases "findUnique_otp uid (db_otps d)")
  case None
  then show ?thesis
    by (simp add: saveOTP_def Let_def findUnique_otp_def find_snoc)
next
  case (Some a)
  then show ?thesis
    by (simp add: saveOTP_def Let_def findUnique_otp_def find_map_update_otp)
qed

text \<open>
  C10. \<open>saveOTP\<close> stores the code with the deadline \<open>now + OTP_EXPIRY * 1000\<close>. \<open>verifyOTP\<close>
  accepts (and deletes the row) whenever the user's stored code equals the provided one:
  the stored row \<open>x\<close> is arbitrary, so whatever its deadline, and no time enters the
  function.
\<close>

theorem verifyOTP_never_checks_expiry:
  "(\<exists>x. findUnique_otp uid (db_otps (saveOTP E d uid code now)) = Some x \<and>
       otp x = code \<and> expiresAt_otp x = now + E * 1000) \<and>
   (findUnique_otp uid (db_otps d) = Some x \<and> otp x = p \<longrightarrow>
      verifyOTP d uid p =
        (True, d\<lparr>db_otps := filter (\<lambda>y. userId_otp y \<noteq> uid) (db_otps d)\<rparr>))"
proof (intro conjI impI)
  show "\<exists>x. findUnique_otp uid (db_otps (saveOTP E d uid code now)) = Some x \<and>
       otp x = code \<and> expiresAt_otp x = now + E * 1000"
    by (rule find_saveOTP)
next
  assume "findUnique_otp uid (db_otps d) = Some x \<and> otp x = p"
  then show "verifyOTP d uid p =
        (True, d\<lparr>db_otps := filter (\<lambda>y. userId_otp y \<noteq> uid) (db_otps d)\<rparr>)"
    by (simp add: verifyOTP_def)
qed

text \<open>
  A code saved at time 1000 with a lifetime of 300 seconds has the deadline 301000; the
  database that holds it accepts the code and is empty afterwards, at whatever later time
  the verification runs.
\<close>

theorem verifyOTP_never_checks_expiry_witness:
  "saveOTP 300 empty_db ''alice'' ''123456'' 1000 =
     empty_db\<lparr>db_otps :=
       [\<lparr>userId_otp = ''alice'', otp = ''123456'', expiresAt_otp = 301000\<rparr>]\<rparr> \<and>
   findUnique_otp ''alice'' (db_otps (saveOTP 300 empty_db ''alice'' ''123456'' 1000)) =
     Some \<lparr>userId_otp = ''alice'', otp = ''123456'', expiresAt_otp = 301000\<rparr> \<and>
   verifyOTP (saveOTP 300 empty_db ''alice'' ''123456'' 1000) ''alice'' ''123456'' =
     (True, empty_db)"
proof -
  let ?row = "\<lparr>userId_otp = ''alice'', otp = ''123456'', expiresAt_otp = 301000\<rparr>"
  have s: "saveOTP 300 empty_db ''alice'' ''123456'' 1000 = empty_db\<lparr>db_otps := [?row]\<rparr>"
    by (simp add: saveOTP_def findUnique_otp_def Let_def example_defs)
  have f: "findUnique_otp ''alice'' (db_otps (empty_db\<lparr>db_otps := [?row]\<rparr>)) = Some ?row"
    by (simp add: findUnique_otp_def)
  from verifyOTP_never_checks_expiry
         [where uid = "''alice''" and d = "empty_db\<lparr>db_otps := [?row]\<rparr>" and x = ?row
            and p = "''123456''"] f
  have "verifyOTP (empty_db\<lparr>db_otps := [?row]\<rparr>) ''alice'' ''123456'' =
          (True, empty_db\<lparr>db_otps := [?row]\<rparr>
                   \<lparr>db_otps := filter (\<lambda>y. userId_otp y \<noteq> ''alice'') [?row]\<rparr>)"
    by simp
  with s f show ?thesis by (simp add: example_defs)
qed

end
